theory Spec2Isabelle
  imports Main
begin

section \<open>JSON documents and the Task class (core/Task.js)\<close>

text \<open>
  Free-form JSON values that occur in task metadata and capability documents.
  Objects are association lists in insertion order, as JavaScript keeps them.
\<close>

datatype jvalue = JNull | JBool bool | JString string | JStrings "string list"

type_synonym jobject = "(string \<times> jvalue) list"

text \<open>Property assignment \<open>obj[k] = v\<close>: an existing key keeps its position.\<close>

fun obj_set :: "string \<Rightarrow> jvalue \<Rightarrow> jobject \<Rightarrow> jobject" where
  "obj_set k v [] = [(k, v)]"
| "obj_set k v ((k', v') # rest) =
     (if k = k' then (k, v) # rest else (k', v') # obj_set k v rest)"

text \<open>\<open>delete obj[k]\<close>.\<close>

definition obj_delete :: "string \<Rightarrow> jobject \<Rightarrow> jobject" where
  "obj_delete k obj = filter (\<lambda>kv. fst kv \<noteq> k) obj"

text \<open>Object spread \<open>{...a, ...b}\<close>: the properties of \<open>b\<close> are assigned onto \<open>a\<close> in order.\<close>

definition obj_spread :: "jobject \<Rightarrow> jobject \<Rightarrow> jobject" where
  "obj_spread a b = foldl (\<lambda>acc kv. obj_set (fst kv) (snd kv) acc) a b"

text \<open>
  A task document. A missing or empty string field is \<open>''''\<close> (both are falsy in
  JavaScript); a missing or \<open>null\<close> target or reference is \<open>None\<close>.
\<close>

record task =
  task_id :: string
  task_type :: string
  title :: string
  description :: string
  priority :: string
  status :: string
  created_at :: string
  updated_at :: string
  agent_id :: string
  created_by :: string
  target_agent_id :: "string option"
  reference_task_id :: "string option"
  dependencies :: "string list"
  deliverables :: "string list"
  metadata :: jobject

text \<open>\<open>a || b\<close> on strings and on nullable strings.\<close>

definition str_or :: "string \<Rightarrow> string \<Rightarrow> string" where
  "str_or a b = (if a = [] then b else a)"

definition truthy_opt :: "string option \<Rightarrow> bool" where
  "truthy_opt x = (case x of None \<Rightarrow> False | Some s \<Rightarrow> s \<noteq> [])"

definition opt_or_null :: "string option \<Rightarrow> string option" where
  "opt_or_null x = (if truthy_opt x then x else None)"

text \<open>
  The constructor \<open>new Task(options)\<close>, which \<open>Task.fromJSON\<close> calls. The clock value
  \<open>now\<close> stands for \<open>new Date().toISOString()\<close> and \<open>uuid\<close> for the result of
  \<open>uuidv4()\<close>.
\<close>

definition metadata_defaults :: jobject where
  "metadata_defaults =
     [(''estimated_effort'', JNull), (''tags'', JStrings []), (''communication_thread'', JNull)]"

definition fromJSON :: "string \<Rightarrow> string \<Rightarrow> task \<Rightarrow> task" where
  "fromJSON now uuid d =
     \<lparr> task_id = str_or (task_id d) uuid,
       task_type = str_or (task_type d) ''implementation'',
       title = title d,
       description = description d,
       priority = str_or (priority d) ''medium'',
       status = str_or (status d) ''pending'',
       created_at = str_or (created_at d) now,
       updated_at = str_or (updated_at d) now,
       agent_id = agent_id d,
       created_by = str_or (created_by d) (agent_id d),
       target_agent_id = opt_or_null (target_agent_id d),
       reference_task_id = opt_or_null (reference_task_id d),
       dependencies = dependencies d,
       deliverables = deliverables d,
       metadata = obj_spread metadata_defaults (metadata d) \<rparr>"

definition updateStatus :: "string \<Rightarrow> string \<Rightarrow> task \<Rightarrow> task" where
  "updateStatus now newStatus t = t\<lparr>status := newStatus, updated_at := now\<rparr>"

definition addDeliverable :: "string \<Rightarrow> task \<Rightarrow> string \<Rightarrow> task" where
  "addDeliverable now t deliverable =
     (if deliverable \<in> set (deliverables t) then t
      else t\<lparr>deliverables := deliverables t @ [deliverable], updated_at := now\<rparr>)"

definition isReady :: "task \<Rightarrow> string list \<Rightarrow> bool" where
  "isReady t completedTaskIds = list_all (\<lambda>depId. depId \<in> set completedTaskIds) (dependencies t)"

text \<open>\<open>validate()\<close>: the list of violations, in the order the source pushes them.\<close>

definition validate :: "task \<Rightarrow> string list" where
  "validate t =
     (if task_id t = [] then [''Task ID is required''] else []) @
     (if title t = [] then [''Task title is required''] else []) @
     (if agent_id t = [] then [''Agent ID is required''] else []) @
     (if created_by t = [] then [''Task creator (created_by) is required''] else []) @
     (if task_type t \<notin> set [''implementation'', ''request'', ''response'']
      then [''Task type must be implementation, request, or response''] else []) @
     (if priority t \<notin> set [''high'', ''medium'', ''low'']
      then [''Task priority must be high, medium, or low''] else []) @
     (if status t \<notin> set [''pending'', ''in_progress'', ''completed'', ''blocked'']
      then [''Task status must be pending, in_progress, completed, or blocked''] else []) @
     (if task_type t = ''request'' \<and> \<not> truthy_opt (target_agent_id t)
      then [''Request tasks must have a target_agent_id''] else []) @
     (if task_type t = ''response'' \<and> \<not> truthy_opt (reference_task_id t)
      then [''Response tasks must have a reference_task_id''] else [])"

text \<open>\<open>Array.prototype.join\<close>.\<close>

fun join :: "string \<Rightarrow> string list \<Rightarrow> string" where
  "join sep [] = []"
| "join sep [x] = x"
| "join sep (x # y # ys) = x @ sep @ join sep (y # ys)"

section \<open>The per-agent directory and the TaskQueue class (core/TaskQueue.js)\<close>

text \<open>
  The three collection files of one agent. \<open>None\<close> is a file that does not exist
  (reading it fails with ENOENT).
\<close>

record task_files =
  active :: "task list option"
  pending :: "task list option"
  completed :: "task list option"

datatype error = Error string

text \<open>\<open>Array.prototype.findIndex\<close>; \<open>None\<close> is the result \<open>-1\<close>.\<close>

fun findIndex :: "('a \<Rightarrow> bool) \<Rightarrow> 'a list \<Rightarrow> nat option" where
  "findIndex P [] = None"
| "findIndex P (x # xs) = (if P x then Some 0 else map_option Suc (findIndex P xs))"

text \<open>\<open>xs.splice(i, 1)\<close>.\<close>

definition splice1 :: "nat \<Rightarrow> 'a list \<Rightarrow> 'a list" where
  "splice1 i xs = take i xs @ drop (Suc i) xs"

text \<open>
  \<open>loadTasks\<close>: a missing file is the empty list; every stored document goes through
  \<open>Task.fromJSON\<close>. The identifier supply \<open>uuid\<close> gives the value \<open>uuidv4()\<close> returns
  for the document at each position.
\<close>

definition loadTasks :: "string \<Rightarrow> (nat \<Rightarrow> string) \<Rightarrow> task list option \<Rightarrow> task list" where
  "loadTasks now uuid file =
     (case file of
        None \<Rightarrow> []
      | Some ds \<Rightarrow> map (\<lambda>(i, d). fromJSON now (uuid i) d) (enumerate 0 ds))"

definition addTask ::
  "string \<Rightarrow> (nat \<Rightarrow> string) \<Rightarrow> task \<Rightarrow> task_files \<Rightarrow> (error + task) \<times> task_files" where
  "addTask now uuid t fs =
     (if validate t \<noteq> [] then (Inl (Error (''Invalid task: '' @ join '', '' (validate t))), fs)
      else
        let pendingTasks = loadTasks now uuid (pending fs) @ [t]
        in (Inr t, fs\<lparr>pending := Some pendingTasks\<rparr>))"

definition activateTask ::
  "string \<Rightarrow> (nat \<Rightarrow> string) \<Rightarrow> string \<Rightarrow> task_files \<Rightarrow> (error + task) \<times> task_files" where
  "activateTask now uuid taskId fs =
     (let pendingTasks = loadTasks now uuid (pending fs) in
      case findIndex (\<lambda>t. task_id t = taskId) pendingTasks of
        None \<Rightarrow> (Inl (Error (''Task '' @ taskId @ '' not found in pending queue'')), fs)
      | Some taskIndex \<Rightarrow>
          let t = pendingTasks ! taskIndex;
              completedTaskIds = map task_id (loadTasks now uuid (completed fs))
          in if \<not> isReady t completedTaskIds
             then (Inl (Error (''Task '' @ taskId @ '' dependencies not met'')), fs)
             else
               let fs1 = fs\<lparr>pending := Some (splice1 taskIndex pendingTasks)\<rparr>;
                   t' = updateStatus now ''in_progress'' t;
                   activeTasks = loadTasks now uuid (active fs1) @ [t']
               in (Inr t', fs1\<lparr>active := Some activeTasks\<rparr>))"

definition completeTask ::
  "string \<Rightarrow> (nat \<Rightarrow> string) \<Rightarrow> string \<Rightarrow> string list \<Rightarrow> task_files
     \<Rightarrow> (error + task) \<times> task_files" where
  "completeTask now uuid taskId dels fs =
     (let activeTasks = loadTasks now uuid (active fs) in
      case findIndex (\<lambda>t. task_id t = taskId) activeTasks of
        None \<Rightarrow> (Inl (Error (''Task '' @ taskId @ '' not found in active queue'')), fs)
      | Some taskIndex \<Rightarrow>
          let t = foldl (addDeliverable now)
                    (updateStatus now ''completed'' (activeTasks ! taskIndex)) dels;
              fs1 = fs\<lparr>active := Some (splice1 taskIndex activeTasks)\<rparr>;
              completedTasks = loadTasks now uuid (completed fs1) @ [t]
          in (Inr t, fs1\<lparr>completed := Some completedTasks\<rparr>))"

text \<open>
  \<open>blockTask\<close> and \<open>unblockTask\<close> mutate the element that \<open>find\<close> returns, which is
  the element of the loaded array at the first matching index, and save the array.
\<close>

definition blockTask ::
  "string \<Rightarrow> (nat \<Rightarrow> string) \<Rightarrow> string \<Rightarrow> string \<Rightarrow> task_files
     \<Rightarrow> (error + task) \<times> task_files" where
  "blockTask now uuid taskId reason fs =
     (let activeTasks = loadTasks now uuid (active fs) in
      case findIndex (\<lambda>t. task_id t = taskId) activeTasks of
        None \<Rightarrow> (Inl (Error (''Task '' @ taskId @ '' not found in active queue'')), fs)
      | Some i \<Rightarrow>
          let t1 = updateStatus now ''blocked'' (activeTasks ! i);
              t2 = (if reason \<noteq> []
                    then t1\<lparr>metadata := obj_set ''blockReason'' (JString reason) (metadata t1)\<rparr>
                    else t1)
          in (Inr t2, fs\<lparr>active := Some (activeTasks[i := t2])\<rparr>))"

definition unblockTask ::
  "string \<Rightarrow> (nat \<Rightarrow> string) \<Rightarrow> string \<Rightarrow> task_files \<Rightarrow> (error + task) \<times> task_files" where
  "unblockTask now uuid taskId fs =
     (let activeTasks = loadTasks now uuid (active fs) in
      case findIndex (\<lambda>t. task_id t = taskId) activeTasks of
        None \<Rightarrow> (Inl (Error (''Task '' @ taskId @ '' not found in active queue'')), fs)
      | Some i \<Rightarrow>
          let t1 = updateStatus now ''in_progress'' (activeTasks ! i);
              t2 = t1\<lparr>metadata := obj_delete ''blockReason'' (metadata t1)\<rparr>
          in (Inr t2, fs\<lparr>active := Some (activeTasks[i := t2])\<rparr>))"

section \<open>The dispatcher's task update (mcp-server.js, updateTaskStatus)\<close>

datatype file_name = ActiveJson | PendingJson | CompletedJson

fun read_file :: "file_name \<Rightarrow> task_files \<Rightarrow> task list option" where
  "read_file ActiveJson fs = active fs"
| "read_file PendingJson fs = pending fs"
| "read_file CompletedJson fs = completed fs"

fun write_file :: "file_name \<Rightarrow> task list \<Rightarrow> task_files \<Rightarrow> task_files" where
  "write_file ActiveJson ts fs = fs\<lparr>active := Some ts\<rparr>"
| "write_file PendingJson ts fs = fs\<lparr>pending := Some ts\<rparr>"
| "write_file CompletedJson ts fs = fs\<lparr>completed := Some ts\<rparr>"

text \<open>
  The loop over \<open>['active.json', 'pending.json', 'completed.json']\<close> on one agent's
  task directory. A file that cannot be read is skipped (the \<open>catch\<close> of the loop
  body); the documents are raw JSON here, not \<open>Task\<close> instances. The result is the
  task the loop found (\<open>None\<close> when \<open>taskFound\<close> stays false) and the directory.
\<close>

fun updateTaskStatus_loop ::
  "string \<Rightarrow> file_name list \<Rightarrow> string \<Rightarrow> string \<Rightarrow> string list \<Rightarrow> task_files
     \<Rightarrow> task option \<times> task_files" where
  "updateTaskStatus_loop now [] taskId newStatus dels fs = (None, fs)"
| "updateTaskStatus_loop now (fileName # rest) taskId newStatus dels fs =
     (case read_file fileName fs of
        None \<Rightarrow> updateTaskStatus_loop now rest taskId newStatus dels fs
      | Some tasks \<Rightarrow>
          (case findIndex (\<lambda>t. task_id t = taskId) tasks of
             None \<Rightarrow> updateTaskStatus_loop now rest taskId newStatus dels fs
           | Some taskIndex \<Rightarrow>
               let t1 = (tasks ! taskIndex)\<lparr>status := newStatus, updated_at := now\<rparr>;
                   t = (if dels \<noteq> [] then t1\<lparr>deliverables := deliverables t1 @ dels\<rparr> else t1);
                   tasks' = tasks[taskIndex := t]
               in if newStatus = ''completed'' \<and> fileName \<noteq> CompletedJson
                  then
                    let fs1 = write_file fileName (splice1 taskIndex tasks') fs;
                        completedTasks =
                          (case read_file CompletedJson fs1 of None \<Rightarrow> [] | Some cs \<Rightarrow> cs) @ [t]
                    in (Some t, write_file CompletedJson completedTasks fs1)
                  else (Some t, write_file fileName tasks' fs)))"

definition taskFiles :: "file_name list" where
  "taskFiles = [ActiveJson, PendingJson, CompletedJson]"

section \<open>Agent directories and the server state\<close>

record relationship =
  rel_agentId :: string
  rel_type :: string
  established :: string
  rel_status :: string

record relationships =
  consumers :: "relationship list"
  producers :: "relationship list"
  bidirectional :: "relationship list"
  optional :: "relationship list"

record mcp_config =
  cfg_agentId :: string
  cfg_capabilities :: jobject
  cfg_connectedAt :: string
  cfg_lastUpdated :: "string option"
  cfg_messageTypes :: "string list"

text \<open>
  A mailbox message document. Fields a message type does not carry are \<open>None\<close> or
  empty; \<open>details\<close> holds the JSON text of the \<open>details\<close> property.
\<close>

record message =
  msg_id :: string
  msg_type :: string
  msg_timestamp :: string
  from_agent_id :: string
  to_agent_id :: string
  task_data :: "task option"
  original_task_id :: string
  msg_task_id :: string
  msg_status :: string
  details :: string

text \<open>
  The content of a file in a mailbox directory, by what \<open>readFile\<close> and \<open>JSON.parse\<close>
  make of it: \<open>Unparseable\<close> is a file that cannot be read or whose text \<open>JSON.parse\<close>
  rejects; \<open>JsonNull\<close> is the text \<open>null\<close>, whose properties cannot be read;
  \<open>NonObject\<close> is a JSON number, string, boolean or array, of which every property
  the poll cycle reads is \<open>undefined\<close>; \<open>Doc\<close> is a JSON object, read as a message
  document (a missing \<open>type\<close> is the empty \<open>msg_type\<close>, which names no handler).
\<close>

datatype file_content = Unparseable | JsonNull | NonObject | Doc message

text \<open>
  Everything under \<open>basePath/agentId\<close>. A missing file or directory is \<open>None\<close>;
  mailbox directories list their files in \<open>readdir\<close> order.
\<close>

record agent_dir =
  context_md :: "string option"
  tasks :: task_files
  relationships_json :: "relationships option"
  mcp_config_json :: "mcp_config option"
  incoming :: "(string \<times> file_content) list option"
  processed :: "(string \<times> file_content) list option"
  outgoing :: "(string \<times> file_content) list option"

record agent_info =
  info_agentId :: string
  info_capabilities :: jobject
  connectedAt :: string
  lastActivity :: string
  registrationCount :: nat

text \<open>The state of an \<open>MCPAgentServer\<close>: the \<open>connectedAgents\<close> map and the file tree
  under \<open>basePath\<close>.\<close>

record server =
  connectedAgents :: "string \<rightharpoonup> agent_info"
  dirs :: "string \<rightharpoonup> agent_dir"

definition no_task_files :: task_files where
  "no_task_files = \<lparr>active = None, pending = None, completed = None\<rparr>"

text \<open>
  \<open>updateTaskStatus\<close>: the loop runs on the task directory of \<open>agentId\<close>; when the
  directory does not exist every read fails. The second component is the state of
  the server afterwards.
\<close>

definition updateTaskStatus ::
  "string \<Rightarrow> string \<Rightarrow> string \<Rightarrow> string \<Rightarrow> string list \<Rightarrow> server \<Rightarrow> (error + task) \<times> server" where
  "updateTaskStatus now agentId taskId newStatus dels srv =
     (case dirs srv agentId of
        None \<Rightarrow> (Inl (Error (''Task '' @ taskId @ '' not found for agent '' @ agentId)), srv)
      | Some d \<Rightarrow>
          (case updateTaskStatus_loop now taskFiles taskId newStatus dels (tasks d) of
             (None, fs') \<Rightarrow>
               (Inl (Error (''Task '' @ taskId @ '' not found for agent '' @ agentId)),
                srv\<lparr>dirs := (dirs srv)(agentId \<mapsto> d\<lparr>tasks := fs'\<rparr>)\<rparr>)
           | (Some t, fs') \<Rightarrow>
               (Inr t, srv\<lparr>dirs := (dirs srv)(agentId \<mapsto> d\<lparr>tasks := fs'\<rparr>)\<rparr>)))"

subsection \<open>The \<open>task/update\<close> handler and its incorporation guidance\<close>

record original_task =
  orig_id :: string
  orig_title :: string
  orig_description :: string
  orig_priority :: string
  orig_deliverables :: "string list"
  orig_metadata :: jobject

record suggested_task =
  s_title :: string
  s_description :: string
  s_priority :: string
  s_agent_id :: string
  s_created_by :: string
  s_target_agent_id :: string
  s_reference_task_id :: string
  s_deliverables :: "string list"
  s_metadata :: jobject

record guidance =
  g_message :: string
  creator_agent :: string
  completed_by :: string
  original_task :: original_task
  suggested_incorporation_task :: suggested_task
  implementation_steps :: "string list"

record update_response =
  success :: bool
  resp_message :: string
  resp_task :: task
  incorporation_needed :: bool
  incorporation_guidance :: "guidance option"

text \<open>\<open>(task.metadata && task.metadata.tags) || []\<close>, for a tag list.\<close>

definition metadata_tags :: "jobject \<Rightarrow> string list" where
  "metadata_tags m = (case map_of m ''tags'' of Some (JStrings ts) \<Rightarrow> ts | _ \<Rightarrow> [])"

definition incorporation :: "string \<Rightarrow> task \<Rightarrow> guidance" where
  "incorporation agentId t =
     \<lparr> g_message = ''This task was created by '' @ created_by t @
          ''. Consider creating an incorporation task for them to review and integrate your changes.'',
       creator_agent = created_by t,
       completed_by = agentId,
       original_task =
         \<lparr> orig_id = task_id t, orig_title = title t, orig_description = description t,
           orig_priority = priority t, orig_deliverables = deliverables t,
           orig_metadata = metadata t \<rparr>,
       suggested_incorporation_task =
         \<lparr> s_title = ''Incorporate changes from: '' @ title t,
           s_description = ''Task '' @ [CHR 0x22] @ title t @ [CHR 0x22] @ '' has been completed by '' @ agentId @
             ''. Please review and incorporate the following deliverables:'' @
             [CHR 0x0A, CHR 0x0A] @
             join [CHR 0x0A] (map (\<lambda>d. ''- '' @ d) (deliverables t)) @
             [CHR 0x0A, CHR 0x0A] @ ''Original task description: '' @ description t,
           s_priority = priority t,
           s_agent_id = created_by t,
           s_created_by = agentId,
           s_target_agent_id = created_by t,
           s_reference_task_id = task_id t,
           s_deliverables = deliverables t,
           s_metadata =
             obj_spread (metadata t)
               [(''incorporation_task'', JBool True),
                (''original_task_id'', JString (task_id t)),
                (''completed_by'', JString agentId),
                (''tags'', JStrings (metadata_tags (metadata t) @ [''incorporation'', ''review'']))] \<rparr>,
       implementation_steps =
         [''1. Create a new task for agent '' @ [CHR 0x22] @ created_by t @ [CHR 0x22] @
            '' using the suggested_incorporation_task data'',
          ''2. Use the task/create method with agentId='' @ [CHR 0x22] @ created_by t @ [CHR 0x22],
          ''3. The incorporation task will help '' @ created_by t @
            '' review and integrate the deliverables: '' @ join '', '' (deliverables t)] \<rparr>"

text \<open>The parameters of \<open>task/update\<close>; a parameter that is missing is empty.\<close>

definition task_update_handler ::
  "string \<Rightarrow> string \<Rightarrow> string \<Rightarrow> string \<Rightarrow> string list \<Rightarrow> server
     \<Rightarrow> (error + update_response) \<times> server" where
  "task_update_handler now agentId taskId newStatus dels srv =
     (if agentId = [] \<or> taskId = [] \<or> newStatus = []
      then (Inl (Error ''Agent ID, task ID, and status are required''), srv)
      else
        case updateTaskStatus now agentId taskId newStatus dels srv of
          (Inl e, srv') \<Rightarrow> (Inl e, srv')
        | (Inr t, srv') \<Rightarrow>
            let response =
                  \<lparr> success = True,
                    resp_message = ''Task '' @ taskId @ '' status updated to '' @ newStatus,
                    resp_task = t,
                    incorporation_needed = False,
                    incorporation_guidance = None \<rparr>
            in if newStatus = ''completed'' \<and> created_by t \<noteq> [] \<and> created_by t \<noteq> agentId
               then (Inr (response\<lparr>incorporation_needed := True,
                                   incorporation_guidance := Some (incorporation agentId t)\<rparr>), srv')
               else (Inr response, srv'))"

subsection \<open>Registration (mcp-server.js, registerAgent and the \<open>agent/register\<close> handler)\<close>

text \<open>
  \<open>JSON.stringify(obj, null, 2)\<close> for the objects of this model (string escapes are
  not modelled).
\<close>

definition quote :: "string \<Rightarrow> string" where
  "quote s = [CHR 0x22] @ s @ [CHR 0x22]"

fun stringify_value :: "jvalue \<Rightarrow> string" where
  "stringify_value JNull = ''null''"
| "stringify_value (JBool b) = (if b then ''true'' else ''false'')"
| "stringify_value (JString s) = quote s"
| "stringify_value (JStrings xs) =
     (if xs = [] then ''[]''
      else ''['' @ [CHR 0x0A] @ join ('','' @ [CHR 0x0A]) (map (\<lambda>x. ''    '' @ quote x) xs) @
           [CHR 0x0A] @ ''  ]'')"

definition stringify :: "jobject \<Rightarrow> string" where
  "stringify obj =
     (if obj = [] then ''{}''
      else ''{'' @ [CHR 0x0A] @
           join ('','' @ [CHR 0x0A])
             (map (\<lambda>kv. ''  '' @ quote (fst kv) @ '': '' @ stringify_value (snd kv)) obj) @
           [CHR 0x0A] @ ''}'')"

definition defaultContext :: "string \<Rightarrow> string \<Rightarrow> jobject \<Rightarrow> string" where
  "defaultContext now agentId capabilities =
     ''# Agent '' @ agentId @ '' Context'' @ [CHR 0x0A, CHR 0x0A] @
     ''## Current State'' @ [CHR 0x0A] @
     ''- Status: Connected to MCP Server'' @ [CHR 0x0A] @
     ''- Registered: '' @ now @ [CHR 0x0A, CHR 0x0A] @
     ''## Capabilities'' @ [CHR 0x0A] @ stringify capabilities @ [CHR 0x0A, CHR 0x0A] @
     ''## Knowledge Base'' @ [CHR 0x0A, CHR 0x0A] @
     ''## Recent Activities'' @ [CHR 0x0A, CHR 0x0A] @
     ''## Notes'' @ [CHR 0x0A]"

definition defaultRelationships :: relationships where
  "defaultRelationships = \<lparr>consumers = [], producers = [], bidirectional = [], optional = []\<rparr>"

definition messageTypes :: "string list" where
  "messageTypes =
     [''TASK_REQUEST'', ''TASK_RESPONSE'', ''STATUS_UPDATE'', ''DEPENDENCY_NOTIFICATION'',
      ''INTEGRATION_TEST'', ''COMPLETION_NOTIFICATION'', ''CONTEXT_SYNC'']"

definition newConfig :: "string \<Rightarrow> string \<Rightarrow> jobject \<Rightarrow> mcp_config" where
  "newConfig now agentId capabilities =
     \<lparr> cfg_agentId = agentId, cfg_capabilities = capabilities, cfg_connectedAt = now,
       cfg_lastUpdated = None, cfg_messageTypes = messageTypes \<rparr>"

text \<open>A directory that \<open>mkdir\<close> has just created: no files in it.\<close>

definition empty_dir :: agent_dir where
  "empty_dir =
     \<lparr> context_md = None, tasks = no_task_files, relationships_json = None,
       mcp_config_json = None, incoming = None, processed = None, outgoing = None \<rparr>"

text \<open>Create a file with the given content only if it does not exist.\<close>

definition init_file :: "'a \<Rightarrow> 'a option \<Rightarrow> 'a option" where
  "init_file content file = (case file of None \<Rightarrow> Some content | Some x \<Rightarrow> Some x)"

record register_result =
  reg_message :: string
  wasUpdated :: bool

definition registerAgent ::
  "string \<Rightarrow> string \<Rightarrow> jobject \<Rightarrow> bool \<Rightarrow> server \<Rightarrow> register_result \<times> server" where
  "registerAgent now agentId capabilities forceUpdate srv =
     (let isExisting = (connectedAgents srv agentId \<noteq> None) in
      if isExisting \<and> \<not> forceUpdate
      then (\<lparr>reg_message = ''Agent '' @ agentId @ '' already registered'', wasUpdated = False\<rparr>, srv)
      else
        let d0 = (case dirs srv agentId of None \<Rightarrow> empty_dir | Some d \<Rightarrow> d);
            d1 = d0\<lparr>incoming := init_file [] (incoming d0), outgoing := init_file [] (outgoing d0)\<rparr>;
            d2 = d1\<lparr>context_md :=
                      init_file (defaultContext now agentId capabilities) (context_md d1)\<rparr>;
            d3 = d2\<lparr>tasks :=
                      \<lparr> active = init_file [] (active (tasks d2)),
                        pending = init_file [] (pending (tasks d2)),
                        completed = init_file [] (completed (tasks d2)) \<rparr>\<rparr>;
            d4 = d3\<lparr>relationships_json := init_file defaultRelationships (relationships_json d3)\<rparr>;
            mcpConfig =
              (if isExisting
               then (case mcp_config_json d4 of
                       Some existingConfig \<Rightarrow>
                         existingConfig\<lparr>cfg_capabilities := capabilities, cfg_lastUpdated := Some now\<rparr>
                     | None \<Rightarrow> newConfig now agentId capabilities)
               else newConfig now agentId capabilities);
            d5 = d4\<lparr>mcp_config_json := Some mcpConfig\<rparr>;
            info =
              (case connectedAgents srv agentId of
                 Some existingAgent \<Rightarrow>
                   \<lparr> info_agentId = agentId, info_capabilities = capabilities,
                     connectedAt = connectedAt existingAgent, lastActivity = now,
                     registrationCount =
                       (if registrationCount existingAgent = 0 then 1
                        else registrationCount existingAgent) + 1 \<rparr>
               | None \<Rightarrow>
                   \<lparr> info_agentId = agentId, info_capabilities = capabilities,
                     connectedAt = now, lastActivity = now, registrationCount = 1 \<rparr>)
        in (\<lparr>reg_message = ''Agent '' @ agentId @
                 (if isExisting then '' updated'' else '' registered'') @ '' successfully'',
             wasUpdated = isExisting\<rparr>,
            srv\<lparr>connectedAgents := (connectedAgents srv)(agentId \<mapsto> info),
                dirs := (dirs srv)(agentId \<mapsto> d5)\<rparr>))"

record register_response =
  reg_success :: bool
  reg_agentId :: string
  reg_resp_message :: string
  reg_wasUpdated :: bool

text \<open>
  The \<open>agent/register\<close> handler: \<open>capabilities\<close> defaults to \<open>{}\<close> and \<open>forceUpdate\<close>
  to \<open>false\<close> when the parameter is missing.
\<close>

definition agent_register_handler ::
  "string \<Rightarrow> string \<Rightarrow> jobject option \<Rightarrow> bool option \<Rightarrow> server
     \<Rightarrow> (error + register_response) \<times> server" where
  "agent_register_handler now agentId capabilities forceUpdate srv =
     (if agentId = [] then (Inl (Error ''Agent ID is required''), srv)
      else
        case registerAgent now agentId
               (case capabilities of None \<Rightarrow> [] | Some c \<Rightarrow> c)
               (case forceUpdate of None \<Rightarrow> False | Some f \<Rightarrow> f) srv of
          (result, srv') \<Rightarrow>
            (Inr \<lparr> reg_success = True, reg_agentId = agentId,
                   reg_resp_message = reg_message result,
                   reg_wasUpdated = wasUpdated result \<rparr>, srv'))"

subsection \<open>Relationships: the dispatcher's addRelationship and RelationshipManager\<close>

definition newRelationship :: "string \<Rightarrow> string \<Rightarrow> string \<Rightarrow> relationship" where
  "newRelationship now peerId relationshipType =
     \<lparr> rel_agentId = peerId, rel_type = relationshipType, established = now,
       rel_status = ''active'' \<rparr>"

text \<open>
  \<open>MCPAgentServer.addRelationship\<close>. An unreadable \<open>relationships.json\<close> is replaced
  by the empty registry; writing into a directory that does not exist fails.
\<close>

definition addRelationship ::
  "string \<Rightarrow> string \<Rightarrow> string \<Rightarrow> string \<Rightarrow> server \<Rightarrow> (error + unit) \<times> server" where
  "addRelationship now agentId targetAgentId relationshipType srv =
     (case dirs srv agentId of
        None \<Rightarrow> (Inl (Error ''ENOENT''), srv)
      | Some d \<Rightarrow>
          let rels = (case relationships_json d of None \<Rightarrow> defaultRelationships | Some r \<Rightarrow> r);
              relationship = newRelationship now targetAgentId relationshipType;
              rels' =
                (if relationshipType = ''consumer''
                 then rels\<lparr>consumers := consumers rels @ [relationship]\<rparr>
                 else if relationshipType = ''producer''
                 then rels\<lparr>producers := producers rels @ [relationship]\<rparr>
                 else if relationshipType = ''bidirectional''
                 then rels\<lparr>bidirectional := bidirectional rels @ [relationship]\<rparr>
                 else if relationshipType = ''optional''
                 then rels\<lparr>optional := optional rels @ [relationship]\<rparr>
                 else rels)
          in (Inr (), srv\<lparr>dirs := (dirs srv)(agentId \<mapsto> d\<lparr>relationships_json := Some rels'\<rparr>)\<rparr>))"

definition relationship_add_handler ::
  "string \<Rightarrow> string \<Rightarrow> string \<Rightarrow> string \<Rightarrow> server \<Rightarrow> (error + string) \<times> server" where
  "relationship_add_handler now agentId targetAgentId relationshipType srv =
     (if agentId = [] \<or> targetAgentId = [] \<or> relationshipType = []
      then (Inl (Error ''Agent ID, target agent ID, and relationship type are required''), srv)
      else
        case addRelationship now agentId targetAgentId relationshipType srv of
          (Inl e, srv') \<Rightarrow> (Inl e, srv')
        | (Inr _, srv') \<Rightarrow>
            (Inr (''Relationship added between '' @ agentId @ '' and '' @ targetAgentId), srv'))"

text \<open>
  \<open>Agent.appendToContext\<close> (core/Agent.js): reading a missing context file is an
  error; otherwise the file is rewritten with the note and a timestamp line.
\<close>

definition appendToContext :: "string \<Rightarrow> string \<Rightarrow> agent_dir \<Rightarrow> (error + unit) \<times> agent_dir" where
  "appendToContext now content d =
     (case context_md d of
        None \<Rightarrow> (Inl (Error ''ENOENT''), d)
      | Some currentContext \<Rightarrow>
          let newContent = currentContext @ [CHR 0x0A, CHR 0x0A] @ ''## '' @ now @ [CHR 0x0A] @ content
          in (Inr (),
              d\<lparr>context_md :=
                   Some (newContent @ [CHR 0x0A, CHR 0x0A] @ ''_Last updated: '' @ now @ ''_'' @
                         [CHR 0x0A])\<rparr>))"

text \<open>
  The four add operations of \<open>RelationshipManager\<close> on the owner's directory.
  \<open>getRelationships\<close> fails when \<open>relationships.json\<close> is missing.
\<close>

definition addConsumer :: "string \<Rightarrow> string \<Rightarrow> string \<Rightarrow> agent_dir \<Rightarrow> (error + unit) \<times> agent_dir" where
  "addConsumer now consumerAgentId relationshipType d =
     (case relationships_json d of
        None \<Rightarrow> (Inl (Error ''ENOENT''), d)
      | Some rels \<Rightarrow>
          if find (\<lambda>c. rel_agentId c = consumerAgentId) (consumers rels) \<noteq> None then (Inr (), d)
          else
            appendToContext now
              (''Added consumer relationship with '' @ consumerAgentId @ '' ('' @ relationshipType @ '')'')
              (d\<lparr>relationships_json :=
                   Some (rels\<lparr>consumers := consumers rels @
                           [newRelationship now consumerAgentId relationshipType]\<rparr>)\<rparr>))"

definition addProducer :: "string \<Rightarrow> string \<Rightarrow> string \<Rightarrow> agent_dir \<Rightarrow> (error + unit) \<times> agent_dir" where
  "addProducer now producerAgentId relationshipType d =
     (case relationships_json d of
        None \<Rightarrow> (Inl (Error ''ENOENT''), d)
      | Some rels \<Rightarrow>
          if find (\<lambda>p. rel_agentId p = producerAgentId) (producers rels) \<noteq> None then (Inr (), d)
          else
            appendToContext now
              (''Added producer relationship with '' @ producerAgentId @ '' ('' @ relationshipType @ '')'')
              (d\<lparr>relationships_json :=
                   Some (rels\<lparr>producers := producers rels @
                           [newRelationship now producerAgentId relationshipType]\<rparr>)\<rparr>))"

definition addBidirectionalRelationship ::
  "string \<Rightarrow> string \<Rightarrow> string \<Rightarrow> agent_dir \<Rightarrow> (error + unit) \<times> agent_dir" where
  "addBidirectionalRelationship now otherAgentId relationshipType d =
     (case relationships_json d of
        None \<Rightarrow> (Inl (Error ''ENOENT''), d)
      | Some rels \<Rightarrow>
          if find (\<lambda>b. rel_agentId b = otherAgentId) (bidirectional rels) \<noteq> None then (Inr (), d)
          else
            appendToContext now (''Added bidirectional relationship with '' @ otherAgentId)
              (d\<lparr>relationships_json :=
                   Some (rels\<lparr>bidirectional := bidirectional rels @
                           [newRelationship now otherAgentId relationshipType]\<rparr>)\<rparr>))"

definition addOptionalRelationship ::
  "string \<Rightarrow> string \<Rightarrow> string \<Rightarrow> agent_dir \<Rightarrow> (error + unit) \<times> agent_dir" where
  "addOptionalRelationship now otherAgentId relationshipType d =
     (case relationships_json d of
        None \<Rightarrow> (Inl (Error ''ENOENT''), d)
      | Some rels \<Rightarrow>
          if find (\<lambda>ob. rel_agentId ob = otherAgentId) (optional rels) \<noteq> None then (Inr (), d)
          else
            appendToContext now (''Added optional relationship with '' @ otherAgentId)
              (d\<lparr>relationships_json :=
                   Some (rels\<lparr>optional := optional rels @
                           [newRelationship now otherAgentId relationshipType]\<rparr>)\<rparr>))"

subsection \<open>The method table (mcp-server.js, setupHandlers)\<close>

text \<open>
  Each function expression evaluated by \<open>setupHandlers\<close> creates one handler object;
  the constructors below name these objects, and \<open>Undefined\<close> is what \<open>Map.get\<close>
  returns for a key that is not in the table. \<open>Bound n h\<close> is the function object
  that the \<open>n\<close>-th call of \<open>Function.prototype.bind\<close> creates for the target \<open>h\<close>:
  every call of \<open>bind\<close> returns a new object.
\<close>

datatype handler =
    Undefined
  | H_initialize | H_initialized | H_agent_register | H_task_create | H_task_request
  | H_task_update | H_relationship_add | H_agent_status | H_context_update
  | H_message_send | H_task_get | H_tools_list
  | Bound nat handler











section \<open>The mailbox poll cycle (communication/CommunicationProtocol.js)\<close>


















section \<open>The stdio-to-network proxy (mcp-proxy.js)\<close>

text \<open>A JSON-RPC request id: a number or a string.\<close>

datatype rpc_id = IdNum int | IdStr string

text \<open>
  The \<open>params\<close> of a request: the properties \<open>name\<close> and \<open>arguments\<close> that the
  tool-call branch reads (\<open>None\<close> when missing) and the JSON text of the whole value.
\<close>

record rpc_params =
  p_name :: "string option"
  p_arguments :: "string option"
  p_json :: string

text \<open>A parsed request; a missing \<open>method\<close> or \<open>id\<close> is \<open>None\<close>.\<close>

record rpc_request =
  req_id :: "rpc_id option"
  req_method :: "string option"
  req_params :: "rpc_params option"

record tool =
  tool_name :: string
  tool_description :: string
  tool_properties :: "(string \<times> string) list"
  tool_required :: "string list"

datatype rpc_result =
    InitializeResult string string
  | ToolsResult "tool list"
  | ResourcesResult
  | PromptsResult
  | ToolContent string
  | ForwardedResult string

datatype rpc_response =
    Result "rpc_id option" rpc_result
  | ErrorResponse "rpc_id option" int string

text \<open>What a call of \<open>client.request\<close> sends to the shared server.\<close>

datatype forwarded = Forwarded "string option" "string option"

record proxy =
  initialized :: bool

text \<open>What handling one line did: the new proxy state, the lines written to standard
  output and the requests sent to the shared server.\<close>

record proxy_step =
  proxy_after :: proxy
  written :: "rpc_response list"
  sent :: "forwarded list"

definition proxy_tools :: "tool list" where
  "proxy_tools =
     [\<lparr>tool_name = ''agent-register'', tool_description = ''Register a new agent'',
       tool_properties = [(''agentId'', ''string''), (''capabilities'', ''object'')],
       tool_required = [''agentId'']\<rparr>,
      \<lparr>tool_name = ''agent-status'', tool_description = ''Get agent or system status'',
       tool_properties = [(''agentId'', ''string'')], tool_required = []\<rparr>,
      \<lparr>tool_name = ''task-create'', tool_description = ''Create a new task'',
       tool_properties = [(''agentId'', ''string''), (''task'', ''object'')],
       tool_required = [''agentId'', ''task'']\<rparr>,
      \<lparr>tool_name = ''task-request'', tool_description = ''Send task request between agents'',
       tool_properties =
         [(''fromAgentId'', ''string''), (''toAgentId'', ''string''), (''taskRequest'', ''object'')],
       tool_required = [''fromAgentId'', ''toAgentId'', ''taskRequest'']\<rparr>,
      \<lparr>tool_name = ''task-update'', tool_description = ''Update task status'',
       tool_properties =
         [(''agentId'', ''string''), (''taskId'', ''string''), (''status'', ''string''),
          (''deliverables'', ''array'')],
       tool_required = [''agentId'', ''taskId'', ''status'']\<rparr>,
      \<lparr>tool_name = ''relationship-add'', tool_description = ''Add agent relationship'',
       tool_properties =
         [(''agentId'', ''string''), (''targetAgentId'', ''string''),
          (''relationshipType'', ''string'')],
       tool_required = [''agentId'', ''targetAgentId'', ''relationshipType'']\<rparr>,
      \<lparr>tool_name = ''context-update'', tool_description = ''Update agent context'',
       tool_properties = [(''agentId'', ''string''), (''context'', ''string'')],
       tool_required = [''agentId'', ''context'']\<rparr>,
      \<lparr>tool_name = ''message-send'', tool_description = ''Send message between agents'',
       tool_properties =
         [(''fromAgentId'', ''string''), (''toAgentId'', ''string''), (''messageType'', ''string''),
          (''messageData'', ''object'')],
       tool_required = [''fromAgentId'', ''toAgentId'', ''messageType'']\<rparr>]"

definition methodMap :: "(string \<times> string) list" where
  "methodMap =
     [(''agent-register'', ''agent/register''), (''agent-status'', ''agent/status''),
      (''task-create'', ''task/create''), (''task-request'', ''task/request''),
      (''task-update'', ''task/update''), (''relationship-add'', ''relationship/add''),
      (''context-update'', ''context/update''), (''message-send'', ''message/send'')]"

definition allowedBeforeInit :: "string list" where
  "allowedBeforeInit = [''initialize'', ''initialized'', ''ping'']"

text \<open>\<open>request && request.id ? request.id : null\<close>: the id \<open>0\<close> and the empty string are
  falsy.\<close>

definition error_id :: "rpc_id option \<Rightarrow> rpc_id option" where
  "error_id i =
     (case i of
        None \<Rightarrow> None
      | Some (IdNum n) \<Rightarrow> (if n = 0 then None else Some (IdNum n))
      | Some (IdStr s) \<Rightarrow> (if s = [] then None else Some (IdStr s)))"

text \<open>
  \<open>handleStdinMessage\<close>. The line is \<open>None\<close> when \<open>JSON.parse\<close> rejects it; \<open>remote\<close>
  is the shared server as \<open>client.request\<close> sees it: the JSON text of the result, or
  the error the returned promise rejects with. (A tool name that names a property
  inherited from \<open>Object.prototype\<close> is looked up as any name that is not in the map.)
\<close>

definition handleStdinMessage ::
  "(forwarded \<Rightarrow> error + string) \<Rightarrow> rpc_request option \<Rightarrow> proxy \<Rightarrow> proxy_step" where
  "handleStdinMessage remote line p =
     (case line of
        None \<Rightarrow>
          \<lparr>proxy_after = p,
           written = [ErrorResponse None (-32603) ''Unexpected token in JSON''],
           sent = []\<rparr>
      | Some request \<Rightarrow>
          if req_method request = Some ''initialize''
          then \<lparr>proxy_after = p,
                written = [Result (req_id request)
                             (InitializeResult ''agent-communication-mcp-proxy'' ''1.0.0'')],
                sent = []\<rparr>
          else if req_method request = Some ''initialized''
          then \<lparr>proxy_after = p\<lparr>initialized := True\<rparr>, written = [], sent = []\<rparr>
          else if req_method request = Some ''tools/list''
          then \<lparr>proxy_after = p, written = [Result (req_id request) (ToolsResult proxy_tools)],
                sent = []\<rparr>
          else if req_method request = Some ''resources/list''
          then \<lparr>proxy_after = p, written = [Result (req_id request) ResourcesResult], sent = []\<rparr>
          else if req_method request = Some ''prompts/list''
          then \<lparr>proxy_after = p, written = [Result (req_id request) PromptsResult], sent = []\<rparr>
          else if req_method request = Some ''tools/call''
          then
            (case req_params request of
               None \<Rightarrow>
                 \<lparr>proxy_after = p,
                  written = [ErrorResponse (error_id (req_id request)) (-32603)
                               ''Cannot read properties of undefined (reading 'name')''],
                  sent = []\<rparr>
             | Some params \<Rightarrow>
                 let toolArgs = (case p_arguments params of None \<Rightarrow> ''{}'' | Some a \<Rightarrow> a);
                     serverMethod =
                       (case p_name params of
                          None \<Rightarrow> None
                        | Some toolName \<Rightarrow>
                            (case map_of methodMap toolName of
                               None \<Rightarrow> Some toolName
                             | Some m \<Rightarrow> Some m));
                     call = Forwarded serverMethod (Some toolArgs)
                 in (case remote call of
                       Inl (Error msg) \<Rightarrow>
                         \<lparr>proxy_after = p,
                          written = [ErrorResponse (error_id (req_id request)) (-32603) msg],
                          sent = [call]\<rparr>
                     | Inr result \<Rightarrow>
                         \<lparr>proxy_after = p,
                          written = [Result (req_id request) (ToolContent result)],
                          sent = [call]\<rparr>))
          else if \<not> initialized p \<and>
                  (case req_method request of
                     None \<Rightarrow> True
                   | Some m \<Rightarrow> m \<notin> set allowedBeforeInit)
          then \<lparr>proxy_after = p,
                written = [ErrorResponse (error_id (req_id request)) (-32603) ''MCP not initialized''],
                sent = []\<rparr>
          else
            let call = Forwarded (req_method request) (map_option p_json (req_params request))
            in (case remote call of
                  Inl (Error msg) \<Rightarrow>
                    \<lparr>proxy_after = p,
                     written = [ErrorResponse (error_id (req_id request)) (-32603) msg],
                     sent = [call]\<rparr>
                | Inr result \<Rightarrow>
                    \<lparr>proxy_after = p,
                     written = [Result (req_id request) (ForwardedResult result)],
                     sent = [call]\<rparr>))"

section \<open>Notions used to state the properties\<close>

text \<open>The documents a collection file holds; a missing file holds none.\<close>

definition file_tasks :: "task list option \<Rightarrow> task list" where
  "file_tasks f = (case f of None \<Rightarrow> [] | Some ds \<Rightarrow> ds)"

text \<open>Every stored document carries an id (so \<open>Task.fromJSON\<close> never invents one).\<close>

definition ids_present :: "task list option \<Rightarrow> bool" where
  "ids_present f = list_all (\<lambda>d. task_id d \<noteq> []) (file_tasks f)"



text \<open>The function a handler object runs when it is called: a bound function runs its
  target.\<close>

fun target :: "handler \<Rightarrow> handler" where
  "target (Bound n h) = target h"
| "target h = h"

text \<open>The methods the proxy answers itself or treats as a tool call, before it looks
  at the handshake flag.\<close>

definition handled_before_gate :: "string list" where
  "handled_before_gate =
     [''initialize'', ''initialized'', ''tools/list'', ''resources/list'', ''prompts/list'',
      ''tools/call'']"

text \<open>The proxy rejects a request: it writes one error response, sends nothing to the
  shared server and keeps its state.\<close>

definition rejected :: "proxy \<Rightarrow> proxy_step \<Rightarrow> bool" where
  "rejected p step =
     (proxy_after step = p \<and> sent step = [] \<and>
      (case written step of [ErrorResponse i code msg] \<Rightarrow> True | _ \<Rightarrow> False))"

text \<open>
  Where the dispatcher's task update finds a task: the first of \<open>active.json\<close>,
  \<open>pending.json\<close>, \<open>completed.json\<close> that can be read and holds a document with the
  id, with the documents of that file and the index of the first such document.
\<close>

fun locate :: "file_name list \<Rightarrow> string \<Rightarrow> task_files \<Rightarrow> (file_name \<times> task list \<times> nat) option" where
  "locate [] taskId fs = None"
| "locate (f # rest) taskId fs =
     (case read_file f fs of
        None \<Rightarrow> locate rest taskId fs
      | Some ts \<Rightarrow>
          (case findIndex (\<lambda>t. task_id t = taskId) ts of
             None \<Rightarrow> locate rest taskId fs
           | Some i \<Rightarrow> Some (f, ts, i)))"

text \<open>The document as the task update rewrites it.\<close>

definition updated_doc :: "string \<Rightarrow> string \<Rightarrow> string list \<Rightarrow> task \<Rightarrow> task" where
  "updated_doc now newStatus dels d =
     (if dels \<noteq> []
      then d\<lparr>status := newStatus, updated_at := now, deliverables := deliverables d @ dels\<rparr>
      else d\<lparr>status := newStatus, updated_at := now\<rparr>)"

text \<open>How many documents of a collection file carry the id, and in the three
  collections together.\<close>

definition held :: "task list option \<Rightarrow> string \<Rightarrow> nat" where
  "held f k = count_list (map task_id (file_tasks f)) k"

definition occurrences :: "task_files \<Rightarrow> string \<Rightarrow> nat" where
  "occurrences fs k = held (active fs) k + held (pending fs) k + held (completed fs) k"

text \<open>
  The queue operations: the five of \<open>TaskQueue\<close> and the dispatcher's task update,
  each run on the task directory of one agent.
\<close>

datatype queue_op =
    AddTask task
  | ActivateTask string
  | CompleteTask string "string list"
  | BlockTask string string
  | UnblockTask string
  | TaskUpdate string string "string list"

fun exec_op ::
  "string \<Rightarrow> (nat \<Rightarrow> string) \<Rightarrow> queue_op \<Rightarrow> task_files \<Rightarrow> (error + task) \<times> task_files" where
  "exec_op now uuid (AddTask t) fs = addTask now uuid t fs"
| "exec_op now uuid (ActivateTask taskId) fs = activateTask now uuid taskId fs"
| "exec_op now uuid (CompleteTask taskId dels) fs = completeTask now uuid taskId dels fs"
| "exec_op now uuid (BlockTask taskId reason) fs = blockTask now uuid taskId reason fs"
| "exec_op now uuid (UnblockTask taskId) fs = unblockTask now uuid taskId fs"
| "exec_op now uuid (TaskUpdate taskId newStatus dels) fs =
     (case updateTaskStatus_loop now taskFiles taskId newStatus dels fs of
        (None, fs') \<Rightarrow> (Inl (Error (''Task '' @ taskId @ '' not found'')), fs')
      | (Some t, fs') \<Rightarrow> (Inr t, fs'))"



text \<open>The status transitions the specification allows.\<close>

definition allowed_transition :: "string \<Rightarrow> string \<Rightarrow> bool" where
  "allowed_transition s s' =
     ((s = ''pending'' \<and> s' = ''in_progress'') \<or>
      (s = ''in_progress'' \<and> s' = ''completed'') \<or>
      (s = ''in_progress'' \<and> s' = ''blocked'') \<or>
      (s = ''blocked'' \<and> s' = ''in_progress''))"

text \<open>All documents of the three collections, and: some document with id \<open>k\<close> has
  status \<open>s\<close>.\<close>

definition all_tasks :: "task_files \<Rightarrow> task list" where
  "all_tasks fs = file_tasks (active fs) @ file_tasks (pending fs) @ file_tasks (completed fs)"

definition has_status :: "task_files \<Rightarrow> string \<Rightarrow> string \<Rightarrow> bool" where
  "has_status fs k s = list_ex (\<lambda>t. task_id t = k \<and> status t = s) (all_tasks fs)"

text \<open>Every document's status agrees with the collection that holds it.\<close>

definition status_consistent :: "task_files \<Rightarrow> bool" where
  "status_consistent fs =
     (list_all (\<lambda>t. status t = ''in_progress'' \<or> status t = ''blocked'') (file_tasks (active fs)) \<and>
      list_all (\<lambda>t. status t = ''pending'') (file_tasks (pending fs)) \<and>
      list_all (\<lambda>t. status t = ''completed'') (file_tasks (completed fs)))"

text \<open>The (id, status) pairs of the documents of a collection file.\<close>

definition id_status :: "task list option \<Rightarrow> (string \<times> string) list" where
  "id_status f = map (\<lambda>t. (task_id t, status t)) (file_tasks f)"

definition all_pairs :: "task_files \<Rightarrow> (string \<times> string) list" where
  "all_pairs fs = id_status (active fs) @ id_status (pending fs) @ id_status (completed fs)"

text \<open>The status changes the four transitions of \<open>TaskQueue\<close> make on collections whose
  statuses agree with their collection.\<close>

definition queue_transition :: "string \<Rightarrow> string \<Rightarrow> bool" where
  "queue_transition s s' =
     (allowed_transition s s' \<or> (s = ''blocked'' \<and> s' = ''completed''))"

text \<open>The operations of \<open>TaskQueue\<close> that set a status.\<close>

fun sets_status :: "queue_op \<Rightarrow> string option" where
  "sets_status (ActivateTask taskId) = Some ''in_progress''"
| "sets_status (CompleteTask taskId dels) = Some ''completed''"
| "sets_status (BlockTask taskId reason) = Some ''blocked''"
| "sets_status (UnblockTask taskId) = Some ''in_progress''"
| "sets_status (AddTask t) = None"
| "sets_status (TaskUpdate taskId st dels) = None"

text \<open>A file that exists is still there with the same content; and: this holds for
  the context, the three task collections, the relationship registry and the
  mailbox directories of an agent.\<close>

definition kept :: "'a option \<Rightarrow> 'a option \<Rightarrow> bool" where
  "kept f f' = (case f of None \<Rightarrow> True | Some x \<Rightarrow> f' = Some x)"

definition agent_state_kept :: "agent_dir \<Rightarrow> agent_dir \<Rightarrow> bool" where
  "agent_state_kept d d' =
     (kept (context_md d) (context_md d') \<and>
      kept (active (tasks d)) (active (tasks d')) \<and>
      kept (pending (tasks d)) (pending (tasks d')) \<and>
      kept (completed (tasks d)) (completed (tasks d')) \<and>
      kept (relationships_json d) (relationships_json d') \<and>
      kept (incoming d) (incoming d') \<and>
      kept (processed d) (processed d') \<and>
      kept (outgoing d) (outgoing d'))"

text \<open>The configuration document keeps every field but the capabilities and the
  time of the last update.\<close>

definition config_kept :: "mcp_config option \<Rightarrow> mcp_config \<Rightarrow> bool" where
  "config_kept c c' =
     (case c of
        None \<Rightarrow> True
      | Some c0 \<Rightarrow>
          cfg_agentId c' = cfg_agentId c0 \<and> cfg_connectedAt c' = cfg_connectedAt c0 \<and>
          cfg_messageTypes c' = cfg_messageTypes c0)"













section \<open>Example states\<close>

text \<open>A well-formed implementation task with the given id, status, creator,
  dependencies and deliverables, owned by agent \<open>y\<close>.\<close>

definition example_task :: "string \<Rightarrow> string \<Rightarrow> string \<Rightarrow> string list \<Rightarrow> string list \<Rightarrow> task" where
  "example_task i st creator deps dels =
     \<lparr> task_id = i, task_type = ''implementation'', title = ''T'' @ i, description = ''work'',
       priority = ''medium'', status = st, created_at = ''2025-01-01T00:00:00.000Z'',
       updated_at = ''2025-01-01T00:00:00.000Z'', agent_id = ''y'', created_by = creator,
       target_agent_id = None, reference_task_id = None, dependencies = deps,
       deliverables = dels, metadata = [] \<rparr>"

text \<open>Task \<open>t1\<close> is pending and depends on the completed task \<open>t0\<close>; \<open>t2\<close> is active.\<close>

definition example_files :: task_files where
  "example_files =
     \<lparr> active = Some [example_task ''t2'' ''in_progress'' ''y'' [] []],
       pending = Some [example_task ''t1'' ''pending'' ''x'' [''t0''] [''d1'']],
       completed = Some [example_task ''t0'' ''completed'' ''y'' [] []] \<rparr>"

definition example_uuid :: "nat \<Rightarrow> string" where
  "example_uuid n = ''uuid-'' @ replicate n CHR ''i''"

text \<open>The directory of agent \<open>y\<close> with the example task files, and a server on which
  the agents \<open>x\<close> and \<open>y\<close> are registered.\<close>

definition example_dir :: agent_dir where
  "example_dir =
     \<lparr> context_md = Some ''# Agent y Context'', tasks = example_files,
       relationships_json = Some defaultRelationships, mcp_config_json = None,
       incoming = Some [], processed = None, outgoing = Some [] \<rparr>"

definition example_info :: "string \<Rightarrow> agent_info" where
  "example_info a =
     \<lparr> info_agentId = a, info_capabilities = [], connectedAt = ''2025-01-01T00:00:00.000Z'',
       lastActivity = ''2025-01-01T00:00:00.000Z'', registrationCount = 1 \<rparr>"

definition example_server :: server where
  "example_server =
     \<lparr> connectedAgents = [''x'' \<mapsto> example_info ''x'', ''y'' \<mapsto> example_info ''y''],
       dirs = [''x'' \<mapsto> empty_dir, ''y'' \<mapsto> example_dir] \<rparr>"


text \<open>A server that has just started, and the same server after a first registration of
  agent \<open>a\<close> with the capabilities \<open>{feature1: true}\<close>.\<close>

definition empty_server :: server where
  "empty_server = \<lparr>connectedAgents = Map.empty, dirs = Map.empty\<rparr>"

definition registered_once :: server where
  "registered_once =
     snd (agent_register_handler ''2025-01-01T00:00:00.000Z'' ''a''
            (Some [(''feature1'', JBool True)]) None empty_server)"







section \<open>Verified properties\<close>

subsection \<open>Lists, indices and loaded collections\<close>


lemma findIndex_Some_bound: "findIndex P xs = Some i \<Longrightarrow> i < length xs \<and> P (xs ! i)"
  by (induction xs arbitrary: i) (auto split: if_splits)


lemma findIndex_None_iff: "findIndex P xs = None \<longleftrightarrow> (\<forall>x\<in>set xs. \<not> P x)"
  by (induction xs) auto

lemma enumerate_map_ids:
  "list_all (\<lambda>d. task_id d \<noteq> []) ds \<Longrightarrow>
   map task_id (map (\<lambda>(i, d). fromJSON now (uuid i) d) (enumerate n ds)) = map task_id ds"
  by (induction ds arbitrary: n) (auto simp: fromJSON_def str_or_def)

lemma loadTasks_ids:
  "ids_present f \<Longrightarrow> map task_id (loadTasks now uuid f) = map task_id (file_tasks f)"
  by (cases f)
    (simp_all add: ids_present_def file_tasks_def loadTasks_def enumerate_map_ids del: map_map)

lemma loadTasks_length: "length (loadTasks now uuid f) = length (file_tasks f)"
  by (auto simp: file_tasks_def loadTasks_def split: option.splits)



subsection \<open>Activation\<close>



subsection \<open>The method table\<close>



subsection \<open>The proxy before the handshake\<close>

text \<open>
  Claim C9, as stated, fails: before the handshake the proxy answers \<open>tools/list\<close>
  itself instead of rejecting it.
\<close>

theorem proxy_gate_counterexample:
  "\<not> initialized \<lparr>initialized = False\<rparr> \<and>
   ''tools/list'' \<notin> set [''initialize'', ''initialized'', ''ping''] \<and>
   \<not> rejected \<lparr>initialized = False\<rparr>
       (handleStdinMessage (\<lambda>c. Inr ''{}'')
          (Some \<lparr>req_id = Some (IdNum 1), req_method = Some ''tools/list'', req_params = None\<rparr>)
          \<lparr>initialized = False\<rparr>)"
  by (simp add: handleStdinMessage_def rejected_def)

text \<open>
  Claim C9, amended. Before the handshake has completed, a request whose method is
  missing or is none of \<open>initialize\<close>, \<open>initialized\<close>, \<open>tools/list\<close>, \<open>resources/list\<close>,
  \<open>prompts/list\<close>, \<open>tools/call\<close> and \<open>ping\<close> is rejected: the proxy writes the error
  \<open>-32603\<close> "MCP not initialized", forwards nothing and keeps its state. The three
  discovery methods are answered by the proxy itself, with nothing forwarded,
  whether or not the handshake has completed.
\<close>

theorem proxy_gate:
  "(\<not> initialized p \<and>
    (case req_method request of
       None \<Rightarrow> True
     | Some m \<Rightarrow> m \<notin> set handled_before_gate \<and> m \<noteq> ''ping'') \<longrightarrow>
      handleStdinMessage remote (Some request) p =
        \<lparr>proxy_after = p,
         written = [ErrorResponse (error_id (req_id request)) (-32603) ''MCP not initialized''],
         sent = []\<rparr> \<and>
      rejected p (handleStdinMessage remote (Some request) p)) \<and>
   (req_method request \<in> {Some ''tools/list'', Some ''resources/list'', Some ''prompts/list''} \<longrightarrow>
      proxy_after (handleStdinMessage remote (Some request) p) = p \<and>
      sent (handleStdinMessage remote (Some request) p) = [] \<and>
      (\<exists>r. written (handleStdinMessage remote (Some request) p) = [Result (req_id request) r]))"
  by (auto simp: handleStdinMessage_def handled_before_gate_def allowedBeforeInit_def
        rejected_def split: option.splits)

theorem proxy_gate_witness:
  "\<not> initialized \<lparr>initialized = False\<rparr> \<and>
   rejected \<lparr>initialized = False\<rparr>
     (handleStdinMessage (\<lambda>c. Inr ''{}'')
        (Some \<lparr>req_id = Some (IdNum 7), req_method = Some ''agent/status'', req_params = None\<rparr>)
        \<lparr>initialized = False\<rparr>) \<and>
   sent
     (handleStdinMessage (\<lambda>c. Inr ''{}'')
        (Some \<lparr>req_id = Some (IdNum 8), req_method = Some ''prompts/list'', req_params = None\<rparr>)
        \<lparr>initialized = False\<rparr>) = []"
proof -
  have a: "rejected \<lparr>initialized = False\<rparr>
     (handleStdinMessage (\<lambda>c. Inr ''{}'')
        (Some \<lparr>req_id = Some (IdNum 7), req_method = Some ''agent/status'', req_params = None\<rparr>)
        \<lparr>initialized = False\<rparr>)"
    using proxy_gate [of "\<lparr>initialized = False\<rparr>"
      "\<lparr>req_id = Some (IdNum 7), req_method = Some ''agent/status'', req_params = None\<rparr>"
      "\<lambda>c. Inr ''{}''"]
    by (simp add: handled_before_gate_def rejected_def)
  have b: "sent
     (handleStdinMessage (\<lambda>c. Inr ''{}'')
        (Some \<lparr>req_id = Some (IdNum 8), req_method = Some ''prompts/list'', req_params = None\<rparr>)
        \<lparr>initialized = False\<rparr>) = []"
    using proxy_gate [of "\<lparr>initialized = False\<rparr>"
      "\<lparr>req_id = Some (IdNum 8), req_method = Some ''prompts/list'', req_params = None\<rparr>"
      "\<lambda>c. Inr ''{}''"]
    by simp
  show ?thesis using a b by simp
qed

subsection \<open>The dispatcher's task update, by where it finds the task\<close>

lemma loop_located:
  "locate files taskId fs = Some (f, ts, i) \<Longrightarrow>
   updateTaskStatus_loop now files taskId st dels fs =
     (let t = updated_doc now st dels (ts ! i) in
      if st = ''completed'' \<and> f \<noteq> CompletedJson
      then (Some t,
            write_file CompletedJson
              (file_tasks (read_file CompletedJson (write_file f (splice1 i (ts[i := t])) fs)) @ [t])
              (write_file f (splice1 i (ts[i := t])) fs))
      else (Some t, write_file f (ts[i := t]) fs))"
proof (induction files)
  case Nil
  then show ?case by simp
next
  case (Cons g rest)
  show ?case
  proof (cases "read_file g fs")
    case None
    with Cons show ?thesis by simp
  next
    case (Some tasks)
    show ?thesis
    proof (cases "findIndex (\<lambda>t. task_id t = taskId) tasks")
      case None
      with Some Cons show ?thesis by simp
    next
      case (Some j)
      with \<open>read_file g fs = Some tasks\<close> Cons.prems
      have eq: "f = g" "ts = tasks" "i = j" by simp_all
      have "updated_doc now st dels (tasks ! j) =
            (if dels \<noteq> []
             then (tasks ! j)\<lparr>status := st, updated_at := now,
                    deliverables := deliverables ((tasks ! j)\<lparr>status := st, updated_at := now\<rparr>) @ dels\<rparr>
             else (tasks ! j)\<lparr>status := st, updated_at := now\<rparr>)"
        by (simp add: updated_doc_def)
      then show ?thesis
        unfolding updateTaskStatus_loop.simps eq \<open>read_file g fs = Some tasks\<close> Some
          option.case Let_def file_tasks_def
        by (simp only: prod.case split: option.split)
    qed
  qed
qed

lemma loop_not_located:
  "locate files taskId fs = None \<Longrightarrow>
   updateTaskStatus_loop now files taskId st dels fs = (None, fs)"
  by (induction files) (auto split: option.splits)

lemma locate_sound:
  "locate files taskId fs = Some (f, ts, i) \<Longrightarrow>
   f \<in> set files \<and> read_file f fs = Some ts \<and> i < length ts \<and> task_id (ts ! i) = taskId \<and>
   findIndex (\<lambda>t. task_id t = taskId) ts = Some i"
  by (induction files) (auto split: option.splits dest: findIndex_Some_bound)

lemma read_write_file:
  "read_file g (write_file f ts fs) = (if g = f then Some ts else read_file g fs)"
  by (cases f; cases g) simp_all

lemma task_id_updated_doc [simp]: "task_id (updated_doc now st dels d) = task_id d"
  by (simp add: updated_doc_def)

lemma status_updated_doc [simp]: "status (updated_doc now st dels d) = st"
  by (simp add: updated_doc_def)

lemma created_by_updated_doc [simp]: "created_by (updated_doc now st dels d) = created_by d"
  by (simp add: updated_doc_def)

lemma deliverables_updated_doc [simp]:
  "deliverables (updated_doc now st dels d) = deliverables d @ dels"
  by (simp add: updated_doc_def)



subsection \<open>What each queue operation does to the collection files\<close>

lemma count_list_splice1:
  "i < length xs \<Longrightarrow> count_list (splice1 i xs) k + (if xs ! i = k then 1 else 0) = count_list xs k"
proof -
  assume "i < length xs"
  then have "xs = take i xs @ xs ! i # drop (Suc i) xs"
    by (rule id_take_nth_drop)
  then have "count_list xs k = count_list (take i xs @ xs ! i # drop (Suc i) xs) k"
    by simp
  then show ?thesis
    by (simp add: splice1_def)
qed

lemma map_splice1: "map f (splice1 i xs) = splice1 i (map f xs)"
  by (simp add: splice1_def take_map drop_map)

lemma map_task_id_update:
  "task_id y = task_id (xs ! i) \<Longrightarrow> map task_id (xs[i := y]) = map task_id xs"
  by (metis list_update_id map_update)

lemma held_Some: "held (Some xs) k = count_list (map task_id xs) k"
  by (simp add: held_def file_tasks_def)


lemma nth_loadTasks_id:
  "ids_present f \<Longrightarrow> i < length (file_tasks f) \<Longrightarrow>
   task_id (loadTasks now uuid f ! i) = task_id (file_tasks f ! i)"
  by (metis loadTasks_ids loadTasks_length nth_map)

lemma activateTask_Inr:
  "activateTask now uuid taskId fs = (Inr t, fs') \<Longrightarrow>
   \<exists>i. findIndex (\<lambda>t. task_id t = taskId) (loadTasks now uuid (pending fs)) = Some i \<and>
       t = updateStatus now ''in_progress'' (loadTasks now uuid (pending fs) ! i) \<and>
       fs' = fs\<lparr>pending := Some (splice1 i (loadTasks now uuid (pending fs))),
                active := Some (loadTasks now uuid (active fs) @ [t])\<rparr>"
  by (auto simp: activateTask_def Let_def split: option.splits if_splits)

lemma activateTask_Inl:
  "activateTask now uuid taskId fs = (Inl e, fs') \<Longrightarrow> fs' = fs"
  by (auto simp: activateTask_def Let_def split: option.splits if_splits)

lemma completeTask_Inr:
  "completeTask now uuid taskId dels fs = (Inr t, fs') \<Longrightarrow>
   \<exists>i. findIndex (\<lambda>t. task_id t = taskId) (loadTasks now uuid (active fs)) = Some i \<and>
       t = foldl (addDeliverable now)
             (updateStatus now ''completed'' (loadTasks now uuid (active fs) ! i)) dels \<and>
       fs' = fs\<lparr>active := Some (splice1 i (loadTasks now uuid (active fs))),
                completed := Some (loadTasks now uuid (completed fs) @ [t])\<rparr>"
  by (auto simp: completeTask_def Let_def split: option.splits if_splits)

lemma completeTask_Inl:
  "completeTask now uuid taskId dels fs = (Inl e, fs') \<Longrightarrow> fs' = fs"
  by (auto simp: completeTask_def Let_def split: option.splits if_splits)

lemma blockTask_Inr:
  "blockTask now uuid taskId reason fs = (Inr t, fs') \<Longrightarrow>
   \<exists>i. findIndex (\<lambda>t. task_id t = taskId) (loadTasks now uuid (active fs)) = Some i \<and>
       task_id t = task_id (loadTasks now uuid (active fs) ! i) \<and> status t = ''blocked'' \<and>
       fs' = fs\<lparr>active := Some ((loadTasks now uuid (active fs))[i := t])\<rparr>"
  by (auto simp: blockTask_def Let_def updateStatus_def split: option.splits if_splits)

lemma blockTask_Inl:
  "blockTask now uuid taskId reason fs = (Inl e, fs') \<Longrightarrow> fs' = fs"
  by (auto simp: blockTask_def Let_def split: option.splits if_splits)

lemma unblockTask_Inr:
  "unblockTask now uuid taskId fs = (Inr t, fs') \<Longrightarrow>
   \<exists>i. findIndex (\<lambda>t. task_id t = taskId) (loadTasks now uuid (active fs)) = Some i \<and>
       task_id t = task_id (loadTasks now uuid (active fs) ! i) \<and> status t = ''in_progress'' \<and>
       fs' = fs\<lparr>active := Some ((loadTasks now uuid (active fs))[i := t])\<rparr>"
  by (auto simp: unblockTask_def Let_def updateStatus_def split: option.splits if_splits)

lemma unblockTask_Inl:
  "unblockTask now uuid taskId fs = (Inl e, fs') \<Longrightarrow> fs' = fs"
  by (auto simp: unblockTask_def Let_def split: option.splits if_splits)


lemma addTask_Inl: "addTask now uuid t fs = (Inl e, fs') \<Longrightarrow> fs' = fs"
  by (auto simp: addTask_def Let_def split: if_splits)

lemma task_id_foldl_addDeliverable [simp]:
  "task_id (foldl (addDeliverable now) t dels) = task_id t"
  by (induction dels arbitrary: t) (simp_all add: addDeliverable_def)

lemma status_foldl_addDeliverable [simp]:
  "status (foldl (addDeliverable now) t dels) = status t"
  by (induction dels arbitrary: t) (simp_all add: addDeliverable_def)

lemma findIndex_loadTasks:
  assumes "ids_present f"
    and "findIndex (\<lambda>t. task_id t = taskId) (loadTasks now uuid f) = Some i"
  shows "i < length (loadTasks now uuid f) \<and> task_id (loadTasks now uuid f ! i) = taskId"
  using assms(2) by (auto dest: findIndex_Some_bound)

lemma held_splice1:
  assumes "i < length xs" and "task_id (xs ! i) = taskId"
  shows "held (Some (splice1 i xs)) k + (if k = taskId then 1 else 0) = held (Some xs) k"
proof -
  have "count_list (splice1 i (map task_id xs)) k + (if map task_id xs ! i = k then 1 else 0) =
        count_list (map task_id xs) k"
    using assms(1) by (intro count_list_splice1) simp
  then show ?thesis
    using assms by (auto simp: held_Some map_splice1)
qed

lemma held_append1:
  "held (Some (xs @ [t])) k = held (Some xs) k + (if k = task_id t then 1 else 0)"
  by (auto simp: held_Some)

lemma held_update:
  "task_id y = task_id (xs ! i) \<Longrightarrow> held (Some (xs[i := y])) k = held (Some xs) k"
  by (simp add: held_Some map_task_id_update)







lemma held_read_None: "read_file g fs = None \<Longrightarrow> held (read_file g fs) k = 0"
  by (simp add: held_def file_tasks_def)

lemma task_update_held:
  assumes "locate taskFiles taskId fs = Some (f, ts, i)"
    and "updateTaskStatus_loop now taskFiles taskId st dels fs = (r, fs')"
  shows "(\<exists>t. r = Some t \<and> task_id t = taskId) \<and>
         (if st = ''completed'' \<and> f \<noteq> CompletedJson
          then held (read_file f fs') k + (if k = taskId then 1 else 0) = held (read_file f fs) k \<and>
               held (read_file CompletedJson fs') k =
                 held (read_file CompletedJson fs) k + (if k = taskId then 1 else 0) \<and>
               (\<forall>g. g \<noteq> f \<and> g \<noteq> CompletedJson \<longrightarrow> read_file g fs' = read_file g fs)
          else \<forall>g. held (read_file g fs') k = held (read_file g fs) k)"
proof -
  let ?t = "updated_doc now st dels (ts ! i)"
  from locate_sound [OF assms(1)] have
    rf: "read_file f fs = Some ts" and b: "i < length ts" and id: "task_id (ts ! i) = taskId"
    by simp_all
  have b': "i < length (ts[i := ?t])" "task_id (ts[i := ?t] ! i) = taskId"
    using b id by simp_all
  show ?thesis
  proof (cases "st = ''completed'' \<and> f \<noteq> CompletedJson")
    case True
    then have fs': "fs' = write_file CompletedJson
              (file_tasks (read_file CompletedJson (write_file f (splice1 i (ts[i := ?t])) fs)) @ [?t])
              (write_file f (splice1 i (ts[i := ?t])) fs)"
      and r: "r = Some ?t"
      using loop_located [OF assms(1), of now st dels] assms(2) by (simp_all add: Let_def)
    from True have ne: "f \<noteq> CompletedJson" "CompletedJson \<noteq> f"
      by auto
    have rf': "read_file f fs' = Some (splice1 i (ts[i := ?t]))"
      using ne by (simp add: fs' read_write_file del: write_file.simps)
    have rc': "read_file CompletedJson fs' = Some (file_tasks (read_file CompletedJson fs) @ [?t])"
      using ne by (simp add: fs' read_write_file del: write_file.simps)
    have "held (Some (ts[i := ?t])) k = held (Some ts) k"
      using id by (simp add: held_update)
    then have 1: "held (read_file f fs') k + (if k = taskId then 1 else 0) = held (read_file f fs) k"
      using held_splice1 [OF b', of k] by (simp add: rf' rf del: read_file.simps)
    have "held (Some (file_tasks (read_file CompletedJson fs))) k = held (read_file CompletedJson fs) k"
      by (simp add: held_def file_tasks_def del: read_file.simps)
    then have 2: "held (read_file CompletedJson fs') k =
                 held (read_file CompletedJson fs) k + (if k = taskId then 1 else 0)"
      using id by (simp add: rc' held_append1 del: read_file.simps)
    have 3: "\<forall>g. g \<noteq> f \<and> g \<noteq> CompletedJson \<longrightarrow> read_file g fs' = read_file g fs"
      by (simp add: fs' read_write_file del: write_file.simps)
    have rt: "\<exists>t. r = Some t \<and> task_id t = taskId"
      using r id by simp
    show ?thesis unfolding if_P [OF True] using rt 1 2 3 by blast
  next
    case False
    then have fs': "fs' = write_file f (ts[i := ?t]) fs" and r: "r = Some ?t"
      using loop_located [OF assms(1), of now st dels] assms(2)
      by (simp_all add: Let_def if_not_P)
    have "\<forall>g. held (read_file g fs') k = held (read_file g fs) k"
      using id by (simp add: fs' read_write_file rf held_update del: write_file.simps)
    then show ?thesis unfolding if_not_P [OF False] using r id by simp
  qed
qed

lemma occurrences_read:
  "occurrences fs k =
     held (read_file ActiveJson fs) k + held (read_file PendingJson fs) k +
     held (read_file CompletedJson fs) k"
  by (simp add: occurrences_def)


lemma locate_None_held:
  "locate files taskId fs = None \<Longrightarrow> f \<in> set files \<Longrightarrow> held (read_file f fs) taskId = 0"
proof (induction files)
  case Nil
  then show ?case by simp
next
  case (Cons g rest)
  show ?case
  proof (cases "f = g")
    case True
    show ?thesis
    proof (cases "read_file g fs")
      case None
      then show ?thesis using True by (simp add: held_def file_tasks_def)
    next
      case (Some ts)
      with Cons.prems(1) have "findIndex (\<lambda>t. task_id t = taskId) ts = None"
        by (simp split: option.splits)
      then have "taskId \<notin> set (map task_id ts)"
        by (auto simp: findIndex_None_iff)
      then show ?thesis using True Some by (simp add: held_Some)
    qed
  next
    case False
    with Cons show ?thesis by (auto split: option.splits)
  qed
qed

lemma exec_op_update_cases:
  assumes "exec_op now uuid (TaskUpdate taskId st dels) fs = (r, fs')"
  shows "(locate taskFiles taskId fs = None \<and> (\<exists>e. r = Inl e) \<and> fs' = fs) \<or>
         (\<exists>f ts i t. locate taskFiles taskId fs = Some (f, ts, i) \<and> r = Inr t \<and>
            updateTaskStatus_loop now taskFiles taskId st dels fs = (Some t, fs'))"
proof (cases "locate taskFiles taskId fs")
  case None
  then show ?thesis
    using assms by (auto simp: loop_not_located)
next
  case (Some x)
  then obtain f ts i where l: "locate taskFiles taskId fs = Some (f, ts, i)"
    by (cases x) auto
  obtain t fs'' where "updateTaskStatus_loop now taskFiles taskId st dels fs = (Some t, fs'')"
    using loop_located [OF l, of now st dels] by (auto simp: Let_def split: if_splits)
  then show ?thesis
    using assms l by auto
qed


lemma exec_op_Inl:
  assumes "exec_op now uuid op fs = (Inl e, fs')"
  shows "fs' = fs"
proof (cases op)
  case (TaskUpdate taskId st dels)
  then show ?thesis
    using exec_op_update_cases [of now uuid taskId st dels fs "Inl e" fs'] assms by auto
qed (use assms in \<open>auto dest: addTask_Inl activateTask_Inl completeTask_Inl blockTask_Inl unblockTask_Inl\<close>)









subsection \<open>Exactly one collection\<close>


lemma example_files_ids:
  "ids_present (active example_files)" "ids_present (pending example_files)"
  "ids_present (completed example_files)"
  by (simp_all add: ids_present_def file_tasks_def example_files_def example_task_def)

lemma example_files_unique: "\<forall>k. occurrences example_files k \<le> 1"
  by (auto simp: occurrences_def held_def file_tasks_def example_files_def example_task_def)




subsection \<open>The task update handler\<close>

lemma task_update_occurrences:
  assumes "updateTaskStatus_loop now taskFiles taskId st dels fs = (r, fs')"
  shows "occurrences fs' k = occurrences fs k"
proof (cases "locate taskFiles taskId fs")
  case None
  then show ?thesis using assms by (simp add: loop_not_located)
next
  case (Some x)
  then obtain f ts i where l: "locate taskFiles taskId fs = Some (f, ts, i)"
    by (cases x) auto
  note h = task_update_held [OF l assms, of k]
  show ?thesis
  proof (cases "st = ''completed'' \<and> f \<noteq> CompletedJson")
    case True
    from h [unfolded if_P [OF True]]
    have a: "held (read_file f fs') k + (if k = taskId then 1 else 0) = held (read_file f fs) k"
      and b: "held (read_file CompletedJson fs') k =
               held (read_file CompletedJson fs) k + (if k = taskId then 1 else 0)"
      and c: "\<forall>g. g \<noteq> f \<and> g \<noteq> CompletedJson \<longrightarrow> read_file g fs' = read_file g fs"
      by blast+
    from True have "f = ActiveJson \<or> f = PendingJson"
      by (cases f) auto
    then show ?thesis
    proof
      assume f: "f = ActiveJson"
      with c [rule_format, of PendingJson]
      have "read_file PendingJson fs' = read_file PendingJson fs" by simp
      then show ?thesis
        using a b f by (simp add: occurrences_read del: read_file.simps split: if_splits)
    next
      assume f: "f = PendingJson"
      with c [rule_format, of ActiveJson]
      have "read_file ActiveJson fs' = read_file ActiveJson fs" by simp
      then show ?thesis
        using a b f by (simp add: occurrences_read del: read_file.simps split: if_splits)
    qed
  next
    case False
    from h [unfolded if_not_P [OF False]]
    have "\<forall>g. held (read_file g fs') k = held (read_file g fs) k"
      by blast
    then show ?thesis
      by (simp add: occurrences_read del: read_file.simps)
  qed
qed

lemma updateTaskStatus_Inr:
  assumes "updateTaskStatus now agentId taskId st dels srv = (Inr t, srv')"
  shows "\<exists>d f ts i fs'.
           dirs srv agentId = Some d \<and> locate taskFiles taskId (tasks d) = Some (f, ts, i) \<and>
           t = updated_doc now st dels (ts ! i) \<and>
           updateTaskStatus_loop now taskFiles taskId st dels (tasks d) = (Some t, fs') \<and>
           srv' = srv\<lparr>dirs := (dirs srv)(agentId \<mapsto> d\<lparr>tasks := fs'\<rparr>)\<rparr>"
proof (cases "dirs srv agentId")
  case None
  then show ?thesis using assms by (simp add: updateTaskStatus_def)
next
  case (Some d)
  show ?thesis
  proof (cases "locate taskFiles taskId (tasks d)")
    case None
    then show ?thesis
      using assms Some by (simp add: updateTaskStatus_def loop_not_located)
  next
    case (Some x)
    then obtain f ts i where l: "locate taskFiles taskId (tasks d) = Some (f, ts, i)"
      by (cases x) auto
    obtain fs' where lp: "updateTaskStatus_loop now taskFiles taskId st dels (tasks d) =
        (Some (updated_doc now st dels (ts ! i)), fs')"
      using loop_located [OF l, of now st dels] by (auto simp: Let_def split: if_splits)
    then show ?thesis
      using assms \<open>dirs srv agentId = Some d\<close> l by (auto simp: updateTaskStatus_def)
  qed
qed

lemma task_update_handler_Inr:
  assumes "task_update_handler now agentId taskId st dels srv = (Inr resp, srv')"
  shows "updateTaskStatus now agentId taskId st dels srv = (Inr (resp_task resp), srv') \<and>
         incorporation_guidance resp =
           (if st = ''completed'' \<and> created_by (resp_task resp) \<noteq> [] \<and>
               created_by (resp_task resp) \<noteq> agentId
            then Some (incorporation agentId (resp_task resp)) else None) \<and>
         incorporation_needed resp =
           (st = ''completed'' \<and> created_by (resp_task resp) \<noteq> [] \<and>
            created_by (resp_task resp) \<noteq> agentId)"
proof -
  obtain r s where u: "updateTaskStatus now agentId taskId st dels srv = (r, s)"
    by (cases "updateTaskStatus now agentId taskId st dels srv")
  show ?thesis
  proof (cases r)
    case (Inl e)
    then show ?thesis using assms u by (simp add: task_update_handler_def split: if_splits)
  next
    case (Inr t)
    then show ?thesis
      using assms u by (auto simp: task_update_handler_def Let_def split: if_splits)
  qed
qed

lemma example_locate_t1:
  "locate taskFiles ''t1'' (tasks example_dir) =
     Some (PendingJson, [example_task ''t1'' ''pending'' ''x'' [''t0''] [''d1'']], 0)"
  by (simp add: taskFiles_def example_dir_def example_files_def example_task_def)

lemma task_update_handler_located:
  assumes "agentId \<noteq> []" "taskId \<noteq> []" "st \<noteq> []"
    and "dirs srv agentId = Some d"
    and "locate taskFiles taskId (tasks d) = Some (f, ts, i)"
  shows "\<exists>resp srv'. task_update_handler now agentId taskId st dels srv = (Inr resp, srv') \<and>
           resp_task resp = updated_doc now st dels (ts ! i)"
proof -
  obtain fs' where lp: "updateTaskStatus_loop now taskFiles taskId st dels (tasks d) =
        (Some (updated_doc now st dels (ts ! i)), fs')"
    using loop_located [OF assms(5), of now st dels] by (auto simp: Let_def split: if_splits)
  then have "fst (updateTaskStatus now agentId taskId st dels srv) =
               Inr (updated_doc now st dels (ts ! i))"
    using assms(4) by (simp add: updateTaskStatus_def)
  then obtain s where "updateTaskStatus now agentId taskId st dels srv =
               (Inr (updated_doc now st dels (ts ! i)), s)"
    by (metis prod.collapse)
  then show ?thesis
    using assms(1-3) by (auto simp: task_update_handler_def Let_def)
qed

text \<open>
  Claim C7. When the \<open>task/update\<close> handler is called with status \<open>completed\<close>,
  succeeds, and the completed task records a creator who is not the agent making
  the update, the response is marked as needing incorporation and carries a
  guidance whose suggested task has the creator as its agent and target, the
  updating agent as its creator, the id of the completed task as its reference and
  the deliverables of the completed task (those stored, followed by those passed
  to the update), together with three suggested steps. The handler does nothing
  beyond the status update itself: the server state is the one \<open>updateTaskStatus\<close>
  leaves, no other agent's directory changes (in particular not the creator's), and
  in the updating agent's collections each id is held as often as before.
\<close>

theorem incorporation_suggestion:
  assumes run: "task_update_handler now agentId taskId ''completed'' dels srv = (Inr resp, srv')"
    and creator: "created_by (resp_task resp) \<noteq> []"
    and differs: "created_by (resp_task resp) \<noteq> agentId"
  shows "incorporation_needed resp \<and>
         (\<exists>g. incorporation_guidance resp = Some g \<and>
              creator_agent g = created_by (resp_task resp) \<and>
              completed_by g = agentId \<and>
              s_agent_id (suggested_incorporation_task g) = created_by (resp_task resp) \<and>
              s_target_agent_id (suggested_incorporation_task g) = created_by (resp_task resp) \<and>
              s_created_by (suggested_incorporation_task g) = agentId \<and>
              s_reference_task_id (suggested_incorporation_task g) = taskId \<and>
              s_deliverables (suggested_incorporation_task g) = deliverables (resp_task resp) \<and>
              length (implementation_steps g) = 3) \<and>
         (\<exists>d f ts i d'.
              dirs srv agentId = Some d \<and> locate taskFiles taskId (tasks d) = Some (f, ts, i) \<and>
              task_id (resp_task resp) = taskId \<and>
              created_by (resp_task resp) = created_by (ts ! i) \<and>
              deliverables (resp_task resp) = deliverables (ts ! i) @ dels \<and>
              dirs srv' agentId = Some d' \<and>
              (\<forall>k. occurrences (tasks d') k = occurrences (tasks d) k)) \<and>
         srv' = snd (updateTaskStatus now agentId taskId ''completed'' dels srv) \<and>
         (\<forall>a. a \<noteq> agentId \<longrightarrow> dirs srv' a = dirs srv a)"
proof -
  note h = task_update_handler_Inr [OF run]
  from h have u: "updateTaskStatus now agentId taskId ''completed'' dels srv =
                    (Inr (resp_task resp), srv')"
    by blast
  from updateTaskStatus_Inr [OF u] obtain d f ts i fs' where
    d: "dirs srv agentId = Some d"
    and l: "locate taskFiles taskId (tasks d) = Some (f, ts, i)"
    and t: "resp_task resp = updated_doc now ''completed'' dels (ts ! i)"
    and lp: "updateTaskStatus_loop now taskFiles taskId ''completed'' dels (tasks d) =
               (Some (resp_task resp), fs')"
    and s: "srv' = srv\<lparr>dirs := (dirs srv)(agentId \<mapsto> d\<lparr>tasks := fs'\<rparr>)\<rparr>"
    by blast
  from locate_sound [OF l] have id: "task_id (ts ! i) = taskId"
    by simp
  have g: "incorporation_guidance resp = Some (incorporation agentId (resp_task resp))"
    and n: "incorporation_needed resp"
    using h creator differs by simp_all
  have tid: "task_id (resp_task resp) = taskId"
    using t id by simp
  have a: "\<exists>g. incorporation_guidance resp = Some g \<and>
              creator_agent g = created_by (resp_task resp) \<and>
              completed_by g = agentId \<and>
              s_agent_id (suggested_incorporation_task g) = created_by (resp_task resp) \<and>
              s_target_agent_id (suggested_incorporation_task g) = created_by (resp_task resp) \<and>
              s_created_by (suggested_incorporation_task g) = agentId \<and>
              s_reference_task_id (suggested_incorporation_task g) = taskId \<and>
              s_deliverables (suggested_incorporation_task g) = deliverables (resp_task resp) \<and>
              length (implementation_steps g) = 3"
    using g tid by (simp add: incorporation_def)
  have occ: "\<forall>k. occurrences fs' k = occurrences (tasks d) k"
    using task_update_occurrences [OF lp] by blast
  have b: "\<exists>d f ts i d'.
              dirs srv agentId = Some d \<and> locate taskFiles taskId (tasks d) = Some (f, ts, i) \<and>
              task_id (resp_task resp) = taskId \<and>
              created_by (resp_task resp) = created_by (ts ! i) \<and>
              deliverables (resp_task resp) = deliverables (ts ! i) @ dels \<and>
              dirs srv' agentId = Some d' \<and>
              (\<forall>k. occurrences (tasks d') k = occurrences (tasks d) k)"
    using d l tid t s occ by (intro exI [of _ d] exI [of _ f] exI [of _ ts] exI [of _ i]
        exI [of _ "d\<lparr>tasks := fs'\<rparr>"]) simp
  have c: "srv' = snd (updateTaskStatus now agentId taskId ''completed'' dels srv)"
    using u by simp
  have e: "\<forall>a. a \<noteq> agentId \<longrightarrow> dirs srv' a = dirs srv a"
    using s by simp
  show ?thesis
    using n a b c e by blast
qed

theorem incorporation_suggestion_witness:
  "\<exists>resp srv' g.
     task_update_handler ''now'' ''y'' ''t1'' ''completed'' [] example_server = (Inr resp, srv') \<and>
     created_by (resp_task resp) = ''x'' \<and> ''x'' \<noteq> ''y'' \<and>
     incorporation_guidance resp = Some g \<and>
     s_target_agent_id (suggested_incorporation_task g) = ''x'' \<and>
     completed_by g = ''y'' \<and>
     s_reference_task_id (suggested_incorporation_task g) = ''t1'' \<and>
     s_deliverables (suggested_incorporation_task g) = [''d1''] \<and>
     dirs srv' ''x'' = dirs example_server ''x''"
proof -
  have d: "dirs example_server ''y'' = Some example_dir"
    by (simp add: example_server_def)
  from task_update_handler_located [OF _ _ _ d example_locate_t1, of "''completed''" "''now''" "[]"]
  obtain resp srv' where
    run: "task_update_handler ''now'' ''y'' ''t1'' ''completed'' [] example_server = (Inr resp, srv')"
    and t: "resp_task resp = updated_doc ''now'' ''completed'' []
              (example_task ''t1'' ''pending'' ''x'' [''t0''] [''d1''])"
    by auto
  have c: "created_by (resp_task resp) = ''x''" and dl: "deliverables (resp_task resp) = [''d1'']"
    using t by (simp_all add: example_task_def)
  have h1: "created_by (resp_task resp) \<noteq> []" and h2: "created_by (resp_task resp) \<noteq> ''y''"
    using c by simp_all
  from incorporation_suggestion [OF run h1 h2]
  obtain g where g: "incorporation_guidance resp = Some g"
      "s_target_agent_id (suggested_incorporation_task g) = created_by (resp_task resp)"
      "completed_by g = ''y''"
      "s_reference_task_id (suggested_incorporation_task g) = ''t1''"
      "s_deliverables (suggested_incorporation_task g) = deliverables (resp_task resp)"
    and e: "\<forall>a. a \<noteq> ''y'' \<longrightarrow> dirs srv' a = dirs example_server a"
    by blast
  have x: "dirs srv' ''x'' = dirs example_server ''x''"
    using e [rule_format, of "''x''"] by simp
  show ?thesis
    using run g x c dl
    by (intro exI [of _ resp] exI [of _ srv'] exI [of _ g]) simp
qed

subsection \<open>Status changes\<close>

lemma count_le1_unique:
  "count_list (map fst ps) k \<le> 1 \<Longrightarrow> (k, a) \<in> set ps \<Longrightarrow> (k, b) \<in> set ps \<Longrightarrow> a = b"
proof (induction ps)
  case Nil
  then show ?case by simp
next
  case (Cons p ps)
  show ?case
  proof (cases "fst p = k")
    case True
    with Cons.prems(1) have "count_list (map fst ps) k = 0" by simp
    then have "k \<notin> set (map fst ps)" using count_list_0_iff by fastforce
    then have "\<forall>c. (k, c) \<notin> set ps" by force
    with Cons.prems(2,3) show ?thesis by auto
  next
    case False
    with Cons show ?thesis by auto
  qed
qed

lemma has_status_pairs: "has_status fs k s \<longleftrightarrow> (k, s) \<in> set (all_pairs fs)"
  by (auto simp: has_status_def all_pairs_def id_status_def all_tasks_def list_ex_iff)

lemma occurrences_pairs: "occurrences fs k = count_list (map fst (all_pairs fs)) k"
  by (simp add: occurrences_def held_def all_pairs_def id_status_def comp_def)

lemma enumerate_map_pairs:
  "list_all (\<lambda>d. task_id d \<noteq> []) ds \<Longrightarrow> list_all (\<lambda>d. status d \<noteq> []) ds \<Longrightarrow>
   map (\<lambda>t. (task_id t, status t)) (map (\<lambda>(i, d). fromJSON now (uuid i) d) (enumerate n ds)) =
   map (\<lambda>t. (task_id t, status t)) ds"
  by (induction ds arbitrary: n) (auto simp: fromJSON_def str_or_def)

lemma loadTasks_pairs:
  "ids_present f \<Longrightarrow> list_all (\<lambda>d. status d \<noteq> []) (file_tasks f) \<Longrightarrow>
   map (\<lambda>t. (task_id t, status t)) (loadTasks now uuid f) = id_status f"
  by (cases f)
    (simp_all add: ids_present_def file_tasks_def loadTasks_def id_status_def
      enumerate_map_pairs del: map_map)

lemma id_status_Some: "id_status (Some xs) = map (\<lambda>t. (task_id t, status t)) xs"
  by (simp add: id_status_def file_tasks_def)

lemma set_splice1_subset: "set (splice1 i xs) \<subseteq> set xs"
  unfolding splice1_def by (metis Un_least set_append set_drop_subset set_take_subset)

lemma set_update_subset: "set (xs[i := y]) \<subseteq> insert y (set xs)"
  by (rule set_update_subset_insert)

lemma status_edge:
  assumes unique: "occurrences fs k \<le> 1"
    and sub: "set (all_pairs fs') \<subseteq> insert (tid, new) (set (all_pairs fs))"
    and old: "(tid, old) \<in> set (all_pairs fs)"
    and s: "has_status fs k s" and s': "has_status fs' k s'" and ne: "s \<noteq> s'"
  shows "k = tid \<and> s = old \<and> s' = new"
proof -
  note u = count_le1_unique [OF unique [unfolded occurrences_pairs]]
  from s have a: "(k, s) \<in> set (all_pairs fs)" by (simp add: has_status_pairs)
  from s' sub have "(k, s') = (tid, new) \<or> (k, s') \<in> set (all_pairs fs)"
    by (auto simp: has_status_pairs)
  then show ?thesis
  proof
    assume "(k, s') = (tid, new)"
    then show ?thesis using u [OF a] old by auto
  next
    assume "(k, s') \<in> set (all_pairs fs)"
    then show ?thesis using u [OF a] ne by auto
  qed
qed

lemma consistent_nonempty:
  assumes "status_consistent fs"
  shows "list_all (\<lambda>d. status d \<noteq> []) (file_tasks (active fs))"
    and "list_all (\<lambda>d. status d \<noteq> []) (file_tasks (pending fs))"
    and "list_all (\<lambda>d. status d \<noteq> []) (file_tasks (completed fs))"
  using assms by (auto simp: status_consistent_def list_all_iff)

lemma consistent_pairs:
  assumes "status_consistent fs"
  shows "(k, s) \<in> set (id_status (active fs)) \<Longrightarrow> s = ''in_progress'' \<or> s = ''blocked''"
    and "(k, s) \<in> set (id_status (pending fs)) \<Longrightarrow> s = ''pending''"
    and "(k, s) \<in> set (id_status (completed fs)) \<Longrightarrow> s = ''completed''"
  using assms by (auto simp: status_consistent_def list_all_iff id_status_def)

lemma found_pair:
  assumes "map (\<lambda>t. (task_id t, status t)) xs = ps"
    and "findIndex (\<lambda>t. task_id t = taskId) xs = Some i"
  shows "(taskId, status (xs ! i)) \<in> set ps"
proof -
  from findIndex_Some_bound [OF assms(2)] have "i < length xs" "task_id (xs ! i) = taskId"
    by simp_all
  then have "xs ! i \<in> set xs"
    by simp
  then have "(task_id (xs ! i), status (xs ! i)) \<in> set ps"
    unfolding assms(1) [symmetric] by (simp add: image_iff) blast
  then show ?thesis
    using \<open>task_id (xs ! i) = taskId\<close> by simp
qed

lemma activate_pairs:
  assumes ids: "ids_present (active fs)" "ids_present (pending fs)"
    and cons: "status_consistent fs"
    and run: "activateTask now uuid taskId fs = (Inr t, fs')"
  shows "set (all_pairs fs') \<subseteq> insert (taskId, ''in_progress'') (set (all_pairs fs)) \<and>
         (taskId, ''pending'') \<in> set (all_pairs fs)"
proof -
  let ?P = "loadTasks now uuid (pending fs)" and ?A = "loadTasks now uuid (active fs)"
  from activateTask_Inr [OF run] obtain i where
    i: "findIndex (\<lambda>t. task_id t = taskId) ?P = Some i"
    and t: "t = updateStatus now ''in_progress'' (?P ! i)"
    and fs': "fs' = fs\<lparr>pending := Some (splice1 i ?P), active := Some (?A @ [t])\<rparr>"
    by blast
  have pP: "map (\<lambda>t. (task_id t, status t)) ?P = id_status (pending fs)"
    and pA: "map (\<lambda>t. (task_id t, status t)) ?A = id_status (active fs)"
    using ids consistent_nonempty [OF cons] by (simp_all add: loadTasks_pairs)
  from i have tid: "task_id (?P ! i) = taskId"
    by (auto dest: findIndex_Some_bound)
  have old: "(taskId, status (?P ! i)) \<in> set (id_status (pending fs))"
    by (rule found_pair [OF pP i])
  then have st: "status (?P ! i) = ''pending''"
    by (rule consistent_pairs(2) [OF cons])
  have 1: "set (id_status (pending fs')) \<subseteq> set (id_status (pending fs))"
    using set_splice1_subset [of i "map (\<lambda>t. (task_id t, status t)) ?P"]
    by (simp add: fs' id_status_Some map_splice1 pP)
  have 2: "id_status (active fs') = id_status (active fs) @ [(taskId, ''in_progress'')]"
    using tid by (simp add: fs' id_status_Some pA t updateStatus_def)
  have 3: "completed fs' = completed fs"
    by (simp add: fs')
  show ?thesis
    using 1 2 3 old st by (auto simp: all_pairs_def)
qed

lemma complete_pairs:
  assumes ids: "ids_present (active fs)" "ids_present (completed fs)"
    and cons: "status_consistent fs"
    and run: "completeTask now uuid taskId dels fs = (Inr t, fs')"
  shows "set (all_pairs fs') \<subseteq> insert (taskId, ''completed'') (set (all_pairs fs)) \<and>
         ((taskId, ''in_progress'') \<in> set (all_pairs fs) \<or>
          (taskId, ''blocked'') \<in> set (all_pairs fs))"
proof -
  let ?A = "loadTasks now uuid (active fs)" and ?C = "loadTasks now uuid (completed fs)"
  from completeTask_Inr [OF run] obtain i where
    i: "findIndex (\<lambda>t. task_id t = taskId) ?A = Some i"
    and t: "t = foldl (addDeliverable now) (updateStatus now ''completed'' (?A ! i)) dels"
    and fs': "fs' = fs\<lparr>active := Some (splice1 i ?A), completed := Some (?C @ [t])\<rparr>"
    by blast
  have pA: "map (\<lambda>t. (task_id t, status t)) ?A = id_status (active fs)"
    and pC: "map (\<lambda>t. (task_id t, status t)) ?C = id_status (completed fs)"
    using ids consistent_nonempty [OF cons] by (simp_all add: loadTasks_pairs)
  from i have tid: "task_id (?A ! i) = taskId"
    by (auto dest: findIndex_Some_bound)
  have old: "(taskId, status (?A ! i)) \<in> set (id_status (active fs))"
    by (rule found_pair [OF pA i])
  then have st: "status (?A ! i) = ''in_progress'' \<or> status (?A ! i) = ''blocked''"
    by (rule consistent_pairs(1) [OF cons])
  have 1: "set (id_status (active fs')) \<subseteq> set (id_status (active fs))"
    using set_splice1_subset [of i "map (\<lambda>t. (task_id t, status t)) ?A"]
    by (simp add: fs' id_status_Some map_splice1 pA)
  have 2: "id_status (completed fs') = id_status (completed fs) @ [(taskId, ''completed'')]"
    using tid by (simp add: fs' id_status_Some pC t updateStatus_def)
  have 3: "pending fs' = pending fs"
    by (simp add: fs')
  show ?thesis
    using 1 2 3 old st by (auto simp: all_pairs_def)
qed

lemma in_place_pairs:
  assumes ids: "ids_present (active fs)"
    and cons: "status_consistent fs"
    and i: "findIndex (\<lambda>t. task_id t = taskId) (loadTasks now uuid (active fs)) = Some i"
    and t: "task_id t = task_id (loadTasks now uuid (active fs) ! i)" "status t = new"
    and fs': "fs' = fs\<lparr>active := Some ((loadTasks now uuid (active fs))[i := t])\<rparr>"
  shows "set (all_pairs fs') \<subseteq> insert (taskId, new) (set (all_pairs fs)) \<and>
         ((taskId, ''in_progress'') \<in> set (all_pairs fs) \<or>
          (taskId, ''blocked'') \<in> set (all_pairs fs))"
proof -
  let ?A = "loadTasks now uuid (active fs)"
  have pA: "map (\<lambda>t. (task_id t, status t)) ?A = id_status (active fs)"
    using ids consistent_nonempty [OF cons] by (simp add: loadTasks_pairs)
  from i have tid: "task_id (?A ! i) = taskId"
    by (auto dest: findIndex_Some_bound)
  have old: "(taskId, status (?A ! i)) \<in> set (id_status (active fs))"
    by (rule found_pair [OF pA i])
  then have st: "status (?A ! i) = ''in_progress'' \<or> status (?A ! i) = ''blocked''"
    by (rule consistent_pairs(1) [OF cons])
  have "id_status (active fs') = (id_status (active fs))[i := (taskId, new)]"
    using t tid by (simp add: fs' id_status_Some map_update pA)
  then have 1: "set (id_status (active fs')) \<subseteq> insert (taskId, new) (set (id_status (active fs)))"
    by (simp add: set_update_subset_insert)
  have 2: "pending fs' = pending fs" "completed fs' = completed fs"
    by (simp_all add: fs')
  show ?thesis
    using 1 2 old st by (auto simp: all_pairs_def)
qed

lemma sets_status_result:
  assumes "sets_status op = Some new" and "exec_op now uuid op fs = (Inr t, fs')"
  shows "status t = new"
proof (cases op)
  case (ActivateTask taskId)
  then show ?thesis
    using assms activateTask_Inr [of now uuid taskId fs t fs'] by (auto simp: updateStatus_def)
next
  case (CompleteTask taskId dels)
  then show ?thesis
    using assms completeTask_Inr [of now uuid taskId dels fs t fs'] by (auto simp: updateStatus_def)
next
  case (BlockTask taskId reason)
  then show ?thesis
    using assms blockTask_Inr [of now uuid taskId reason fs t fs'] by auto
next
  case (UnblockTask taskId)
  then show ?thesis
    using assms unblockTask_Inr [of now uuid taskId fs t fs'] by auto
qed (use assms in simp_all)

lemma queue_transition_simps:
  "queue_transition ''pending'' ''in_progress''"
  "queue_transition ''in_progress'' ''completed''"
  "queue_transition ''blocked'' ''completed''"
  "queue_transition ''in_progress'' ''blocked''"
  "queue_transition ''blocked'' ''in_progress''"
  by (simp_all add: queue_transition_def allowed_transition_def)

lemma sets_status_edges:
  assumes ids: "ids_present (active fs)" "ids_present (pending fs)" "ids_present (completed fs)"
    and unique: "occurrences fs k \<le> 1"
    and cons: "status_consistent fs"
    and op: "sets_status op = Some new"
    and run: "exec_op now uuid op fs = (r, fs')"
    and s: "has_status fs k s" and s': "has_status fs' k s'" and ne: "s \<noteq> s'"
  shows "queue_transition s s' \<and> s' = new"
proof (cases r)
  case (Inl e)
  then have "fs' = fs" using exec_op_Inl run by blast
  then have "s = s'"
    using count_le1_unique [OF unique [unfolded occurrences_pairs]] s s'
    by (simp add: has_status_pairs)
  with ne show ?thesis by simp
next
  case (Inr t)
  show ?thesis
  proof (cases op)
    case (ActivateTask taskId)
    with run Inr have "activateTask now uuid taskId fs = (Inr t, fs')" by simp
    from activate_pairs [OF ids(1,2) cons this]
    have sub: "set (all_pairs fs') \<subseteq> insert (taskId, ''in_progress'') (set (all_pairs fs))"
      and old: "(taskId, ''pending'') \<in> set (all_pairs fs)"
      by simp_all
    have new: "new = ''in_progress''" using ActivateTask op by simp
    from status_edge [OF unique sub old s s' ne]
    show ?thesis unfolding new by (simp add: queue_transition_simps)
  next
    case (CompleteTask taskId dels)
    with run Inr have "completeTask now uuid taskId dels fs = (Inr t, fs')" by simp
    from complete_pairs [OF ids(1,3) cons this]
    have sub: "set (all_pairs fs') \<subseteq> insert (taskId, ''completed'') (set (all_pairs fs))"
      and old: "(taskId, ''in_progress'') \<in> set (all_pairs fs) \<or>
                (taskId, ''blocked'') \<in> set (all_pairs fs)"
      by simp_all
    from old show ?thesis
    proof
      assume "(taskId, ''in_progress'') \<in> set (all_pairs fs)"
      have new: "new = ''completed''" using CompleteTask op by simp
      from status_edge [OF unique sub \<open>(taskId, _) \<in> set (all_pairs fs)\<close> s s' ne]
      show ?thesis unfolding new by (simp add: queue_transition_simps)
    next
      assume "(taskId, ''blocked'') \<in> set (all_pairs fs)"
      have new: "new = ''completed''" using CompleteTask op by simp
      from status_edge [OF unique sub \<open>(taskId, _) \<in> set (all_pairs fs)\<close> s s' ne]
      show ?thesis unfolding new by (simp add: queue_transition_simps)
    qed
  next
    case (BlockTask taskId reason)
    with run Inr have "blockTask now uuid taskId reason fs = (Inr t, fs')" by simp
    from blockTask_Inr [OF this] obtain i where
      "findIndex (\<lambda>t. task_id t = taskId) (loadTasks now uuid (active fs)) = Some i"
      "task_id t = task_id (loadTasks now uuid (active fs) ! i)" "status t = ''blocked''"
      "fs' = fs\<lparr>active := Some ((loadTasks now uuid (active fs))[i := t])\<rparr>"
      by blast
    from in_place_pairs [OF ids(1) cons this]
    have sub: "set (all_pairs fs') \<subseteq> insert (taskId, ''blocked'') (set (all_pairs fs))"
      and old: "(taskId, ''in_progress'') \<in> set (all_pairs fs) \<or>
                (taskId, ''blocked'') \<in> set (all_pairs fs)"
      by simp_all
    from old show ?thesis
    proof
      assume "(taskId, ''in_progress'') \<in> set (all_pairs fs)"
      have new: "new = ''blocked''" using BlockTask op by simp
      from status_edge [OF unique sub \<open>(taskId, _) \<in> set (all_pairs fs)\<close> s s' ne]
      show ?thesis unfolding new by (simp add: queue_transition_simps)
    next
      assume "(taskId, ''blocked'') \<in> set (all_pairs fs)"
      from status_edge [OF unique sub this s s' ne] ne
      show ?thesis by simp
    qed
  next
    case (UnblockTask taskId)
    with run Inr have "unblockTask now uuid taskId fs = (Inr t, fs')" by simp
    from unblockTask_Inr [OF this] obtain i where
      "findIndex (\<lambda>t. task_id t = taskId) (loadTasks now uuid (active fs)) = Some i"
      "task_id t = task_id (loadTasks now uuid (active fs) ! i)" "status t = ''in_progress''"
      "fs' = fs\<lparr>active := Some ((loadTasks now uuid (active fs))[i := t])\<rparr>"
      by blast
    from in_place_pairs [OF ids(1) cons this]
    have sub: "set (all_pairs fs') \<subseteq> insert (taskId, ''in_progress'') (set (all_pairs fs))"
      and old: "(taskId, ''in_progress'') \<in> set (all_pairs fs) \<or>
                (taskId, ''blocked'') \<in> set (all_pairs fs)"
      by simp_all
    from old show ?thesis
    proof
      assume "(taskId, ''in_progress'') \<in> set (all_pairs fs)"
      from status_edge [OF unique sub this s s' ne] ne
      show ?thesis by simp
    next
      assume "(taskId, ''blocked'') \<in> set (all_pairs fs)"
      have new: "new = ''in_progress''" using UnblockTask op by simp
      from status_edge [OF unique sub \<open>(taskId, _) \<in> set (all_pairs fs)\<close> s s' ne]
      show ?thesis unfolding new by (simp add: queue_transition_simps)
    qed
  qed (use op in simp_all)
qed

lemma task_update_sets_status:
  assumes "exec_op now uuid (TaskUpdate taskId st dels) fs = (Inr t, fs')"
  shows "status t = st \<and> task_id t = taskId \<and> has_status fs' taskId st"
proof -
  from exec_op_update_cases [OF assms]
  obtain f ts i where l: "locate taskFiles taskId fs = Some (f, ts, i)"
    and lp: "updateTaskStatus_loop now taskFiles taskId st dels fs = (Some t, fs')"
    by auto
  let ?t = "updated_doc now st dels (ts ! i)"
  from locate_sound [OF l] have b: "i < length ts" and id: "task_id (ts ! i) = taskId"
    by simp_all
  have t: "t = ?t"
    using loop_located [OF l, of now st dels] lp by (auto simp: Let_def split: if_splits)
  have "\<exists>g. t \<in> set (file_tasks (read_file g fs'))"
  proof (cases "st = ''completed'' \<and> f \<noteq> CompletedJson")
    case True
    have "fs' = write_file CompletedJson
              (file_tasks (read_file CompletedJson (write_file f (splice1 i (ts[i := ?t])) fs)) @ [?t])
              (write_file f (splice1 i (ts[i := ?t])) fs)"
      using loop_located [OF l, of now st dels, unfolded Let_def if_P [OF True]] lp
      by (simp del: write_file.simps read_file.simps)
    then have "read_file CompletedJson fs' =
        Some (file_tasks (read_file CompletedJson (write_file f (splice1 i (ts[i := ?t])) fs)) @ [?t])"
      by (simp add: read_write_file del: write_file.simps read_file.simps)
    then have "t \<in> set (file_tasks (read_file CompletedJson fs'))"
      using t by (simp add: file_tasks_def del: read_file.simps)
    then show ?thesis ..
  next
    case False
    have "fs' = write_file f (ts[i := ?t]) fs"
      using loop_located [OF l, of now st dels, unfolded Let_def if_not_P [OF False]] lp
      by (simp del: write_file.simps read_file.simps)
    then have "read_file f fs' = Some (ts[i := ?t])"
      by (simp add: read_write_file del: write_file.simps read_file.simps)
    then have "t \<in> set (file_tasks (read_file f fs'))"
      using t b by (simp add: file_tasks_def set_update_memI del: read_file.simps)
    then show ?thesis ..
  qed
  then obtain g where "t \<in> set (file_tasks (read_file g fs'))" ..
  then have "t \<in> set (all_tasks fs')"
    by (cases g) (simp_all add: all_tasks_def)
  moreover have st: "status t = st" "task_id t = taskId"
    using t id by simp_all
  ultimately have "has_status fs' taskId st"
    unfolding has_status_def list_ex_iff by blast
  then show ?thesis using st by simp
qed

lemma example_tasks_dir: "tasks example_dir = example_files"
  by (simp add: example_dir_def)

text \<open>
  Claim C5, as stated, fails: the dispatcher's task update with status \<open>completed\<close>
  takes the pending task \<open>t1\<close> from \<open>pending\<close> to \<open>completed\<close>, which is not an
  allowed transition.
\<close>

theorem status_transition_counterexample:
  "has_status example_files ''t1'' ''pending'' \<and>
   has_status (snd (exec_op ''now'' example_uuid (TaskUpdate ''t1'' ''completed'' []) example_files))
     ''t1'' ''completed'' \<and>
   \<not> allowed_transition ''pending'' ''completed''"
proof -
  have a: "has_status example_files ''t1'' ''pending''"
    by (simp add: has_status_def all_tasks_def file_tasks_def example_files_def example_task_def)
  have l: "locate taskFiles ''t1'' example_files \<noteq> None"
    using example_locate_t1 by (simp add: example_tasks_dir)
  obtain r fs' where run:
    "exec_op ''now'' example_uuid (TaskUpdate ''t1'' ''completed'' []) example_files = (r, fs')"
    by (cases "exec_op ''now'' example_uuid (TaskUpdate ''t1'' ''completed'' []) example_files")
  from exec_op_update_cases [OF run] l obtain t where "r = Inr t"
    by auto
  with run task_update_sets_status [of "''now''" example_uuid "''t1''" "''completed''" "[]"
      example_files t fs']
  have "has_status fs' ''t1'' ''completed''" by simp
  then show ?thesis
    using a run by (simp add: allowed_transition_def)
qed

text \<open>
  Claim C5, amended. \<open>activateTask\<close>, \<open>completeTask\<close>, \<open>blockTask\<close> and \<open>unblockTask\<close> give
  the task they return the status \<open>in_progress\<close>, \<open>completed\<close>, \<open>blocked\<close> and
  \<open>in_progress\<close>, without looking at its previous status. On collections whose
  documents carry ids, that hold the id at most once and whose statuses agree with
  their collection (\<open>pending\<close> in pending, \<open>in_progress\<close> or \<open>blocked\<close> in active,
  \<open>completed\<close> in completed), a status that one of these four operations changes
  changes along pending\<rightarrow>in_progress, in_progress\<rightarrow>completed, in_progress\<rightarrow>blocked,
  blocked\<rightarrow>in_progress or blocked\<rightarrow>completed. The dispatcher's task update gives the
  task it finds the status it is passed, whatever that is.
\<close>

theorem queue_status_transitions:
  "(sets_status op = Some new \<and> exec_op now uuid op fs = (Inr t, fs') \<longrightarrow> status t = new) \<and>
   (ids_present (active fs) \<and> ids_present (pending fs) \<and> ids_present (completed fs) \<and>
    occurrences fs k \<le> 1 \<and> status_consistent fs \<and> sets_status op = Some new \<and>
    exec_op now uuid op fs = (r, fs') \<and> has_status fs k s \<and> has_status fs' k s' \<and> s \<noteq> s' \<longrightarrow>
      queue_transition s s' \<and> s' = new) \<and>
   (exec_op now uuid (TaskUpdate taskId st dels) fs = (Inr t, fs') \<longrightarrow>
      status t = st \<and> has_status fs' taskId st)"
  using sets_status_result [of op new now uuid fs t fs']
    sets_status_edges [of fs k op new now uuid r fs' s s']
    task_update_sets_status [of now uuid taskId st dels fs t fs']
  by blast

lemma example_files_consistent: "status_consistent example_files"
  by (simp add: status_consistent_def file_tasks_def example_files_def example_task_def)

lemma example_complete_t2:
  "has_status (snd (exec_op ''now'' example_uuid (CompleteTask ''t2'' []) example_files))
     ''t2'' ''completed''"
  by (simp add: completeTask_def loadTasks_def example_files_def example_task_def fromJSON_def
      str_or_def Let_def updateStatus_def has_status_def all_tasks_def file_tasks_def splice1_def
      opt_or_null_def truthy_opt_def)

theorem queue_status_transitions_witness:
  "ids_present (active example_files) \<and> ids_present (pending example_files) \<and>
   ids_present (completed example_files) \<and> occurrences example_files ''t2'' \<le> 1 \<and>
   status_consistent example_files \<and>
   sets_status (CompleteTask ''t2'' []) = Some ''completed'' \<and>
   has_status example_files ''t2'' ''in_progress'' \<and>
   has_status (snd (exec_op ''now'' example_uuid (CompleteTask ''t2'' []) example_files))
     ''t2'' ''completed'' \<and>
   queue_transition ''in_progress'' ''completed''"
proof -
  have a: "has_status example_files ''t2'' ''in_progress''"
    by (simp add: has_status_def all_tasks_def file_tasks_def example_files_def example_task_def)
  have run: "exec_op ''now'' example_uuid (CompleteTask ''t2'' []) example_files =
      (fst (exec_op ''now'' example_uuid (CompleteTask ''t2'' []) example_files),
       snd (exec_op ''now'' example_uuid (CompleteTask ''t2'' []) example_files))"
    by simp
  have u: "occurrences example_files ''t2'' \<le> 1"
    using example_files_unique by blast
  have ne: "''in_progress'' \<noteq> ''completed''" by simp
  from queue_status_transitions [of "CompleteTask ''t2'' []" "''completed''" "''now''" example_uuid
      example_files _ "snd (exec_op ''now'' example_uuid (CompleteTask ''t2'' []) example_files)"
      "''t2''" "fst (exec_op ''now'' example_uuid (CompleteTask ''t2'' []) example_files)"
      "''in_progress''" "''completed''"]
    example_files_ids example_files_consistent u a example_complete_t2 run ne
  have "queue_transition ''in_progress'' ''completed''"
    by simp
  then show ?thesis
    using example_files_ids example_files_consistent u a example_complete_t2 by simp
qed

subsection \<open>Registering an agent again\<close>

lemma init_file_Some [simp]: "init_file c (Some x) = Some x"
  by (simp add: init_file_def)

lemma init_file_None [simp]: "init_file c None = Some c"
  by (simp add: init_file_def)

lemma init_file_keeps: "f = Some x \<Longrightarrow> init_file c f = Some x"
  by simp

lemma registerAgent_skip:
  "connectedAgents srv agentId \<noteq> None \<Longrightarrow>
   snd (registerAgent now agentId caps False srv) = srv"
  by (simp add: registerAgent_def)

lemma registerAgent_force:
  assumes "connectedAgents srv agentId = Some i" and "dirs srv agentId = Some d"
  shows "snd (registerAgent now agentId caps True srv) =
     srv\<lparr>connectedAgents := (connectedAgents srv)(agentId \<mapsto>
            \<lparr> info_agentId = agentId, info_capabilities = caps,
              connectedAt = connectedAt i, lastActivity = now,
              registrationCount =
                (if registrationCount i = 0 then 1 else registrationCount i) + 1 \<rparr>),
         dirs := (dirs srv)(agentId \<mapsto>
            d\<lparr> incoming := init_file [] (incoming d), outgoing := init_file [] (outgoing d),
               context_md := init_file (defaultContext now agentId caps) (context_md d),
               tasks := \<lparr> active = init_file [] (active (tasks d)),
                          pending = init_file [] (pending (tasks d)),
                          completed = init_file [] (completed (tasks d)) \<rparr>,
               relationships_json := init_file defaultRelationships (relationships_json d),
               mcp_config_json := Some
                 (case mcp_config_json d of
                    Some existingConfig \<Rightarrow>
                      existingConfig\<lparr>cfg_capabilities := caps, cfg_lastUpdated := Some now\<rparr>
                  | None \<Rightarrow> newConfig now agentId caps) \<rparr>)\<rparr>"
  using assms by (simp add: registerAgent_def Let_def)

lemma kept_init_file [simp]: "kept f (init_file c f)"
  by (cases f) (simp_all add: kept_def)

lemma kept_refl [simp]: "kept f f"
  by (cases f) (simp_all add: kept_def)

text \<open>
  Claim C3, amended. Registering an agent that is already registered (its counter
  is at least 1 and its directory exists) never fails and keeps the first-registered
  timestamp, every existing file of the agent (context, task collections,
  relationships, mailboxes) and all state of the other agents. With \<open>forceUpdate\<close>
  true the call adds exactly 1 to the registration counter and replaces the stored
  capabilities by the supplied ones, in the agent table and in the configuration
  document, whose agent id, connect time and message types stay. Without
  \<open>forceUpdate\<close> (the default) the call changes nothing at all.
\<close>

theorem reregistration:
  assumes "agentId \<noteq> []"
    and "connectedAgents srv agentId = Some i" and "0 < registrationCount i"
    and "dirs srv agentId = Some d"
  shows "(\<exists>resp. fst (agent_register_handler now agentId caps force srv) = Inr resp \<and>
                reg_wasUpdated resp = (force = Some True)) \<and>
         (\<exists>i' d'.
            connectedAgents (snd (agent_register_handler now agentId caps force srv)) agentId = Some i' \<and>
            dirs (snd (agent_register_handler now agentId caps force srv)) agentId = Some d' \<and>
            connectedAt i' = connectedAt i \<and> agent_state_kept d d' \<and>
            (if force = Some True
             then registrationCount i' = registrationCount i + 1 \<and>
                  info_capabilities i' = (case caps of None \<Rightarrow> [] | Some c \<Rightarrow> c) \<and>
                  (\<exists>c'. mcp_config_json d' = Some c' \<and>
                        cfg_capabilities c' = (case caps of None \<Rightarrow> [] | Some c \<Rightarrow> c) \<and>
                        config_kept (mcp_config_json d) c')
             else snd (agent_register_handler now agentId caps force srv) = srv)) \<and>
         (\<forall>b. b \<noteq> agentId \<longrightarrow>
              connectedAgents (snd (agent_register_handler now agentId caps force srv)) b =
                connectedAgents srv b \<and>
              dirs (snd (agent_register_handler now agentId caps force srv)) b = dirs srv b)"
proof (cases "force = Some True")
  case True
  let ?caps = "case caps of None \<Rightarrow> [] | Some c \<Rightarrow> c"
  have s: "snd (agent_register_handler now agentId caps force srv) =
           snd (registerAgent now agentId ?caps True srv)"
    using assms(1) True by (simp add: agent_register_handler_def split: prod.splits)
  have r: "\<exists>resp. fst (agent_register_handler now agentId caps force srv) = Inr resp \<and>
                reg_wasUpdated resp = (force = Some True)"
    using assms(1,2) True
    by (simp add: agent_register_handler_def registerAgent_def Let_def split: prod.splits)
  show ?thesis
    unfolding s registerAgent_force [OF assms(2,4)] using r assms(3) True
    by (simp add: agent_state_kept_def config_kept_def newConfig_def split: option.splits)
next
  case False
  let ?caps = "case caps of None \<Rightarrow> [] | Some c \<Rightarrow> c"
  have f: "(case force of None \<Rightarrow> False | Some f \<Rightarrow> f) = False"
    using False by (cases force) auto
  have s: "snd (agent_register_handler now agentId caps force srv) = srv"
    using assms(1,2) f by (simp add: agent_register_handler_def registerAgent_def)
  have r: "\<exists>resp. fst (agent_register_handler now agentId caps force srv) = Inr resp \<and>
                reg_wasUpdated resp = (force = Some True)"
    using assms(1,2) False f
    by (simp add: agent_register_handler_def registerAgent_def Let_def)
  show ?thesis
    unfolding s using r assms(2,4) False by (simp add: agent_state_kept_def)
qed

lemma registered_once_agent:
  "connectedAgents registered_once ''a'' =
     Some \<lparr> info_agentId = ''a'', info_capabilities = [(''feature1'', JBool True)],
            connectedAt = ''2025-01-01T00:00:00.000Z'', lastActivity = ''2025-01-01T00:00:00.000Z'',
            registrationCount = 1 \<rparr>"
  by (simp add: registered_once_def agent_register_handler_def registerAgent_def
      empty_server_def Let_def)

lemma registered_once_dir: "\<exists>d. dirs registered_once ''a'' = Some d"
  by (simp add: registered_once_def agent_register_handler_def registerAgent_def
      empty_server_def Let_def)

text \<open>
  Claim C3, as stated, fails: a second registration with the default \<open>forceUpdate\<close>
  leaves the registration counter at 1 and the stored capabilities as they were.
\<close>

theorem reregistration_counterexample:
  "map_option registrationCount (connectedAgents registered_once ''a'') = Some 1 \<and>
   map_option registrationCount
     (connectedAgents
        (snd (agent_register_handler ''2025-02-02T00:00:00.000Z'' ''a''
                (Some [(''feature1'', JBool True), (''feature2'', JBool True)]) None
                registered_once)) ''a'') = Some 1 \<and>
   map_option info_capabilities
     (connectedAgents
        (snd (agent_register_handler ''2025-02-02T00:00:00.000Z'' ''a''
                (Some [(''feature1'', JBool True), (''feature2'', JBool True)]) None
                registered_once)) ''a'') = Some [(''feature1'', JBool True)]"
proof -
  have "snd (agent_register_handler ''2025-02-02T00:00:00.000Z'' ''a''
                (Some [(''feature1'', JBool True), (''feature2'', JBool True)]) None
                registered_once) = registered_once"
    using registered_once_agent by (simp add: agent_register_handler_def registerAgent_def)
  then show ?thesis
    by (simp add: registered_once_agent)
qed

theorem reregistration_witness:
  "''a'' \<noteq> [] \<and>
   map_option registrationCount (connectedAgents registered_once ''a'') = Some 1 \<and>
   map_option registrationCount
     (connectedAgents
        (snd (agent_register_handler ''2025-02-02T00:00:00.000Z'' ''a''
                (Some [(''feature2'', JBool True)]) (Some True) registered_once)) ''a'') = Some 2 \<and>
   map_option connectedAt
     (connectedAgents
        (snd (agent_register_handler ''2025-02-02T00:00:00.000Z'' ''a''
                (Some [(''feature2'', JBool True)]) (Some True) registered_once)) ''a'') =
     Some ''2025-01-01T00:00:00.000Z'' \<and>
   map_option info_capabilities
     (connectedAgents
        (snd (agent_register_handler ''2025-02-02T00:00:00.000Z'' ''a''
                (Some [(''feature2'', JBool True)]) (Some True) registered_once)) ''a'') =
     Some [(''feature2'', JBool True)]"
proof -
  obtain d where d: "dirs registered_once ''a'' = Some d"
    using registered_once_dir by blast
  have n: "''a'' \<noteq> []" by simp
  have c: "0 < registrationCount
      \<lparr> info_agentId = ''a'', info_capabilities = [(''feature1'', JBool True)],
        connectedAt = ''2025-01-01T00:00:00.000Z'', lastActivity = ''2025-01-01T00:00:00.000Z'',
        registrationCount = 1 \<rparr>"
    by simp
  from reregistration [OF n registered_once_agent c d, of "''2025-02-02T00:00:00.000Z''"
      "Some [(''feature2'', JBool True)]" "Some True"]
  obtain i' where
    "connectedAgents
        (snd (agent_register_handler ''2025-02-02T00:00:00.000Z'' ''a''
                (Some [(''feature2'', JBool True)]) (Some True) registered_once)) ''a'' = Some i'"
    "connectedAt i' = ''2025-01-01T00:00:00.000Z''"
    "registrationCount i' = 2" "info_capabilities i' = [(''feature2'', JBool True)]"
    by auto
  then show ?thesis
    by (simp add: registered_once_agent)
qed

subsection \<open>Adding a relationship twice\<close>

text \<open>
  Claim C4 fails on the dispatcher: adding the consumer \<open>x\<close> to agent \<open>y\<close> twice
  through \<open>relationship/add\<close> leaves two entries for \<open>x\<close> in \<open>y\<close>'s consumer list.
\<close>

theorem relationship_add_twice:
  "map_option (\<lambda>d. map_option (\<lambda>r. map rel_agentId (consumers r)) (relationships_json d))
     (dirs
        (snd (relationship_add_handler ''2025-02-02T00:00:00.000Z'' ''y'' ''x'' ''consumer''
           (snd (relationship_add_handler ''2025-01-01T00:00:00.000Z'' ''y'' ''x'' ''consumer''
              example_server)))) ''y'') =
   Some (Some [''x'', ''x''])"
  by (simp add: relationship_add_handler_def addRelationship_def example_server_def
      example_dir_def defaultRelationships_def newRelationship_def Let_def)

text \<open>
  The sibling path, \<open>RelationshipManager.addConsumer\<close>, does what the claim says: on a
  registry without an entry for the peer, two calls leave exactly one entry, and
  the second call changes nothing.
\<close>

lemma addConsumer_twice:
  assumes "relationships_json d = Some rels" and "context_md d = Some c"
    and "peer \<notin> set (map rel_agentId (consumers rels))"
  shows "snd (addConsumer now2 peer ty2 (snd (addConsumer now1 peer ty1 d))) =
           snd (addConsumer now1 peer ty1 d) \<and>
         fst (addConsumer now2 peer ty2 (snd (addConsumer now1 peer ty1 d))) = Inr () \<and>
         map_option (\<lambda>r. count_list (map rel_agentId (consumers r)) peer)
           (relationships_json (snd (addConsumer now1 peer ty1 d))) = Some 1"
proof -
  have n: "find (\<lambda>c. rel_agentId c = peer) (consumers rels) = None"
    using assms(3) by (auto simp: find_None_iff)
  have d1: "snd (addConsumer now1 peer ty1 d) =
      d\<lparr>relationships_json :=
           Some (rels\<lparr>consumers := consumers rels @ [newRelationship now1 peer ty1]\<rparr>),
        context_md := Some ((c @ [CHR 0x0A, CHR 0x0A] @ ''## '' @ now1 @ [CHR 0x0A] @
             (''Added consumer relationship with '' @ peer @ '' ('' @ ty1 @ '')'')) @
             [CHR 0x0A, CHR 0x0A] @ ''_Last updated: '' @ now1 @ ''_'' @ [CHR 0x0A])\<rparr>"
    using assms(1,2) n by (simp add: addConsumer_def appendToContext_def Let_def)
  have f: "find (\<lambda>c. rel_agentId c = peer)
             (consumers rels @ [newRelationship now1 peer ty1]) \<noteq> None"
    by (auto simp: find_None_iff newRelationship_def)
  have c: "count_list (map rel_agentId (consumers rels)) peer = 0"
    using assms(3) by simp
  show ?thesis
    unfolding d1 using f c by (simp add: addConsumer_def newRelationship_def)
qed

subsection \<open>The poll tick\<close>



























end
